theory Spec2Isabelle
  imports Main "HOL-Library.Monad_Syntax" "HOL-Library.Sublist"
begin

section \<open>The world the trampoline runs in\<close>

text \<open>
  The two source files are \<^verbatim>\<open>csrc/aio/py_lib/trampoline.h\<close> (class \<^verbatim>\<open>Trampoline\<close>,
  which loads a backend with \<^verbatim>\<open>dlopen\<close>) and \<^verbatim>\<open>csrc/aio/py_lib/py_ds_aio.cpp\<close> (class
  \<^verbatim>\<open>DeepSpeedAIOTrampoline\<close> and the module-level functions of the Python binding).

  Both classes act on things outside themselves: the free store, the dynamic loader, the
  error stream and the backend objects. These are gathered in one record \<open>world\<close> that
  every operation takes and returns. A pointer is a \<open>nat option\<close>, \<open>None\<close> being
  \<^verbatim>\<open>nullptr\<close>. An operation returns \<open>None\<close> where C++ gives the program no meaning:
  \<^verbatim>\<open>delete\<close> of an object that is not live, a member call through a pointer to a
  deleted object, \<^verbatim>\<open>dlclose\<close> of a handle that is not open. An exception that leaves a
  function is a result of its own (\<open>completion\<close> below), not \<open>None\<close>.
\<close>

type_synonym tensor = nat

datatype call =
    AioRead tensor string bool
  | AioWrite tensor string bool
  | DeepspeedMemcpy tensor tensor
  | Read tensor string bool
  | Write tensor string bool
  | Pread tensor string bool bool
  | Pwrite tensor string bool bool
  | SyncPread tensor string
  | SyncPwrite tensor string
  | AsyncPread tensor string
  | AsyncPwrite tensor string
  | NewCpuLockedTensor nat tensor
  | FreeCpuLockedTensor tensor
  | Wait

text \<open>
  Modelled from the spec: the backend object. \<^verbatim>\<open>deepspeed_aio_base.h\<close> and the concrete
  engines are not among the sources, so a device object is the five read-only
  configuration values its getters report, the name of what built it, and the list of
  the state-changing member calls it has received, in order.
\<close>

record dev_obj =
  backend :: string
  block_size :: int
  queue_depth :: int
  single_submit :: bool
  overlap_events :: bool
  thread_count :: int
  calls :: "call list"

text \<open>
  A loadable module: the symbols it exports and the object its \<^verbatim>\<open>create_device\<close>
  returns.
\<close>

record lib =
  symbols :: "string list"
  factory :: dev_obj

text \<open>
  The world: the current directory of the process, \<open>None\<close> when it cannot be determined
  (it has been removed, say), in which case \<^verbatim>\<open>std::filesystem::current_path()\<close> throws;
  the modules \<^verbatim>\<open>dlopen\<close> can open, by path; the message the loader leaves for a path it
  cannot open, and for a symbol a module lacks (their texts belong to the platform and
  are parameters here); the object \<^verbatim>\<open>new NVMEDevice()\<close> builds; the free store (\<open>heap\<close>,
  the live device objects by address); the open module handles with the path each was
  opened from; the next address or handle to be given out; the pending message of
  \<^verbatim>\<open>dlerror\<close>; the lines written to \<^verbatim>\<open>std::cerr\<close>; and the events on the free store
  and in the loader so far, in order.
\<close>

datatype event = New nat | Delete nat | DlOpen nat string | DlClose nat

record world =
  cwd :: "string option"
  libs :: "string \<rightharpoonup> lib"
  open_error :: "string \<Rightarrow> string"
  symbol_error :: "string \<Rightarrow> string \<Rightarrow> string"
  nvme :: dev_obj
  heap :: "nat \<rightharpoonup> dev_obj"
  opened :: "nat \<rightharpoonup> string"
  next_id :: nat
  dl_error :: "string option"
  cerr :: "string list"
  trace :: "event list"

subsection \<open>The free store and the error stream\<close>

definition new_obj :: "dev_obj \<Rightarrow> world \<Rightarrow> nat \<times> world" where
  "new_obj obj w =
     (next_id w,
      w\<lparr>heap := (heap w)(next_id w \<mapsto> obj),
        next_id := Suc (next_id w),
        trace := trace w @ [New (next_id w)]\<rparr>)"

definition delete_obj :: "nat \<Rightarrow> world \<Rightarrow> world option" where
  "delete_obj p w =
     (case heap w p of
        None \<Rightarrow> None
      | Some obj \<Rightarrow> Some (w\<lparr>heap := (heap w)(p := None), trace := trace w @ [Delete p]\<rparr>))"

definition cerr_print :: "string \<Rightarrow> world \<Rightarrow> world" where
  "cerr_print s w = w\<lparr>cerr := cerr w @ [s]\<rparr>"

subsection \<open>The dynamic loader\<close>

text \<open>
  \<^verbatim>\<open>dlopen\<close> succeeds exactly on the paths in \<open>libs\<close>. A failure of \<^verbatim>\<open>dlopen\<close> or
  \<^verbatim>\<open>dlsym\<close> stores a message that \<^verbatim>\<open>dlerror\<close> returns once and clears.
\<close>

definition dlopen :: "string \<Rightarrow> world \<Rightarrow> nat option \<times> world" where
  "dlopen path w =
     (case libs w path of
        None \<Rightarrow>
          (None, w\<lparr>dl_error := Some (open_error w path)\<rparr>)
      | Some l \<Rightarrow>
          (Some (next_id w),
           w\<lparr>opened := (opened w)(next_id w \<mapsto> path),
             next_id := Suc (next_id w),
             trace := trace w @ [DlOpen (next_id w) path]\<rparr>))"

definition dlclose :: "nat \<Rightarrow> world \<Rightarrow> world option" where
  "dlclose h w =
     (case opened w h of
        None \<Rightarrow> None
      | Some path \<Rightarrow>
          Some (w\<lparr>opened := (opened w)(h := None), trace := trace w @ [DlClose h]\<rparr>))"

definition dlerror :: "world \<Rightarrow> string option \<times> world" where
  "dlerror w = (dl_error w, w\<lparr>dl_error := None\<rparr>)"

definition dlsym :: "nat \<Rightarrow> string \<Rightarrow> world \<Rightarrow> (dev_obj option \<times> world) option" where
  "dlsym h name w =
     (case opened w h of
        None \<Rightarrow> None
      | Some path \<Rightarrow>
          (case libs w path of
             None \<Rightarrow> None
           | Some l \<Rightarrow>
               if name \<in> set (symbols l) then Some (Some (factory l), w)
               else Some (None, w\<lparr>dl_error := Some (symbol_error w path name)\<rparr>)))"

subsection \<open>Paths\<close>

text \<open>
  \<^verbatim>\<open>std::filesystem::path::operator/\<close> on a POSIX system: an absolute right operand
  replaces the left one; otherwise a separator is put in when the left operand ends in a
  file name.
\<close>

definition is_absolute :: "string \<Rightarrow> bool" where
  "is_absolute p = (case p of [] \<Rightarrow> False | c # cs \<Rightarrow> c = CHR ''/'')"

definition has_filename :: "string \<Rightarrow> bool" where
  "has_filename p = (case rev p of [] \<Rightarrow> False | c # cs \<Rightarrow> c \<noteq> CHR ''/'')"

definition path_append :: "string \<Rightarrow> string \<Rightarrow> string" where
  "path_append p q =
     (if is_absolute q then q
      else if has_filename p then p @ ''/'' @ q
      else p @ q)"

text \<open>
  \<^verbatim>\<open>c_str()\<close> hands a C function the characters up to the first NUL: a path with a NUL
  inside reaches \<^verbatim>\<open>dlopen\<close> cut off there.
\<close>

definition c_str :: "string \<Rightarrow> string" where
  "c_str p = takeWhile (\<lambda>c. c \<noteq> CHR 0x00) p"

definition so_directory :: "string \<Rightarrow> string" where
  "so_directory current_path =
     path_append (path_append (path_append current_path ''deepspeed'') ''ops'') ''plugins''"

definition lib_path :: "string \<Rightarrow> string \<Rightarrow> string" where
  "lib_path current_path device_type =
     path_append (so_directory current_path) (device_type @ ''_op.so'')"

subsection \<open>Member calls through a device pointer\<close>

text \<open>
  \<^verbatim>\<open>device->m(args)\<close> for a \<^verbatim>\<open>void\<close> member \<open>m\<close>: the object the pointer refers to
  receives the call. \<^verbatim>\<open>device->get_x()\<close> for a \<^verbatim>\<open>const\<close> getter: the object's value
  is read and nothing changes. Through a pointer to no live object neither has a meaning.
\<close>

definition member_call :: "nat \<Rightarrow> call \<Rightarrow> world \<Rightarrow> (unit \<times> world) option" where
  "member_call p c w =
     (case heap w p of
        None \<Rightarrow> None
      | Some obj \<Rightarrow> Some ((), w\<lparr>heap := (heap w)(p \<mapsto> obj\<lparr>calls := calls obj @ [c]\<rparr>)\<rparr>))"

definition member_get :: "nat \<Rightarrow> (dev_obj \<Rightarrow> 'a) \<Rightarrow> world \<Rightarrow> ('a \<times> world) option" where
  "member_get p get w =
     (case heap w p of
        None \<Rightarrow> None
      | Some obj \<Rightarrow> Some (get obj, w))"

text \<open>
  Modelled from the spec: the backend's side of \<^verbatim>\<open>wait\<close> (section 4.1: it returns once
  all asynchronous operations previously issued to the device instance have completed).
  The operations still in flight are the asynchronous ones received since the last
  \<^verbatim>\<open>wait\<close>.
\<close>

fun is_async :: "call \<Rightarrow> bool" where
  "is_async (Pread buffer filename validate async) = async"
| "is_async (Pwrite buffer filename validate async) = async"
| "is_async (AsyncPread buffer filename) = True"
| "is_async (AsyncPwrite buffer filename) = True"
| "is_async c = False"

definition outstanding :: "call list \<Rightarrow> nat" where
  "outstanding cs =
     fold (\<lambda>c n. if c = Wait then 0 else if is_async c then Suc n else n) cs 0"

section \<open>Class Trampoline\<close>

record Trampoline =
  device :: "nat option"
  handle :: "nat option"

text \<open>
  How a call of \<^verbatim>\<open>load_device\<close>, or of the constructor, ends: it returns, or the
  \<^verbatim>\<open>filesystem_error\<close> thrown by \<^verbatim>\<open>std::filesystem::current_path()\<close> leaves it. In the
  second case the members of the object are as they were when the exception was thrown.
\<close>

datatype completion = Returned | Filesystem_error

definition load_device ::
  "string \<Rightarrow> Trampoline \<Rightarrow> world \<Rightarrow> (completion \<times> Trampoline \<times> world) option" where
  "load_device device_type t w = do {
     w1 \<leftarrow> (case device t of Some d \<Rightarrow> delete_obj d w | None \<Rightarrow> Some w);
     w2 \<leftarrow> (case handle t of Some h \<Rightarrow> dlclose h w1 | None \<Rightarrow> Some w1);
     (case cwd w2 of
        None \<Rightarrow> Some (Filesystem_error, t, w2)
      | Some current_path \<Rightarrow>
          (case dlopen (c_str (lib_path current_path device_type)) w2 of
             (None, w3) \<Rightarrow>
               (case dlerror w3 of
                  (msg, w4) \<Rightarrow>
                    Some (Returned, t\<lparr>handle := None\<rparr>,
                          cerr_print (''Cannot open library: '' @ (case msg of Some m \<Rightarrow> m | None \<Rightarrow> []) @ ''\<newline>'') w4))
           | (Some h, w3) \<Rightarrow>
               (case dlerror w3 of
                  (cleared, w4) \<Rightarrow> do {
                    (create_device, w5) \<leftarrow> dlsym h ''create_device'' w4;
                    (case dlerror w5 of
                       (Some dlsym_error, w6) \<Rightarrow> do {
                         w7 \<leftarrow> dlclose h
                                (cerr_print (''Cannot load symbol create_device: '' @ dlsym_error @ ''\<newline>'') w6);
                         Some (Returned, t\<lparr>handle := None\<rparr>, w7)
                       }
                     | (None, w6) \<Rightarrow>
                         (case create_device of
                            None \<Rightarrow> None
                          | Some obj \<Rightarrow>
                              (case new_obj obj w6 of
                                 (p, w7) \<Rightarrow>
                                   Some (Returned, t\<lparr>device := Some p, handle := Some h\<rparr>, w7))))
                  })))
   }"

definition Trampoline_ctor ::
  "string \<Rightarrow> world \<Rightarrow> (completion \<times> Trampoline \<times> world) option" where
  "Trampoline_ctor device_type w = load_device device_type \<lparr>device = None, handle = None\<rparr> w"

definition aio_read :: "Trampoline \<Rightarrow> tensor \<Rightarrow> string \<Rightarrow> bool \<Rightarrow> world \<Rightarrow> (unit \<times> world) option" where
  "aio_read t buffer filename validate w =
     (case device t of
        Some d \<Rightarrow> member_call d (AioRead buffer filename validate) w
      | None \<Rightarrow> Some ((), cerr_print ''No device loaded for aio_read\<newline>'' w))"

definition aio_write :: "Trampoline \<Rightarrow> tensor \<Rightarrow> string \<Rightarrow> bool \<Rightarrow> world \<Rightarrow> (unit \<times> world) option" where
  "aio_write t buffer filename validate w =
     (case device t of
        Some d \<Rightarrow> member_call d (AioWrite buffer filename validate) w
      | None \<Rightarrow> Some ((), cerr_print ''No device loaded for aio_write\<newline>'' w))"

definition deepspeed_memcpy :: "Trampoline \<Rightarrow> tensor \<Rightarrow> tensor \<Rightarrow> world \<Rightarrow> (unit \<times> world) option" where
  "deepspeed_memcpy t dest src w =
     (case device t of
        Some d \<Rightarrow> member_call d (DeepspeedMemcpy dest src) w
      | None \<Rightarrow> Some ((), cerr_print ''No device loaded for deepspeed_memcpy\<newline>'' w))"

definition get_block_size :: "Trampoline \<Rightarrow> world \<Rightarrow> (int \<times> world) option" where
  "get_block_size t w =
     (case device t of
        Some d \<Rightarrow> member_get d block_size w
      | None \<Rightarrow> Some (- 1, cerr_print ''No device loaded for get_block_size\<newline>'' w))"

definition get_queue_depth :: "Trampoline \<Rightarrow> world \<Rightarrow> (int \<times> world) option" where
  "get_queue_depth t w =
     (case device t of
        Some d \<Rightarrow> member_get d queue_depth w
      | None \<Rightarrow> Some (- 1, cerr_print ''No device loaded for get_queue_depth\<newline>'' w))"

definition get_single_submit :: "Trampoline \<Rightarrow> world \<Rightarrow> (bool \<times> world) option" where
  "get_single_submit t w =
     (case device t of
        Some d \<Rightarrow> member_get d single_submit w
      | None \<Rightarrow> Some (False, cerr_print ''No device loaded for get_single_submit\<newline>'' w))"

definition get_overlap_events :: "Trampoline \<Rightarrow> world \<Rightarrow> (bool \<times> world) option" where
  "get_overlap_events t w =
     (case device t of
        Some d \<Rightarrow> member_get d overlap_events w
      | None \<Rightarrow> Some (False, cerr_print ''No device loaded for get_overlap_events\<newline>'' w))"

definition get_thread_count :: "Trampoline \<Rightarrow> world \<Rightarrow> (int \<times> world) option" where
  "get_thread_count t w =
     (case device t of
        Some d \<Rightarrow> member_get d thread_count w
      | None \<Rightarrow> Some (- 1, cerr_print ''No device loaded for get_thread_count\<newline>'' w))"

definition read :: "Trampoline \<Rightarrow> tensor \<Rightarrow> string \<Rightarrow> bool \<Rightarrow> world \<Rightarrow> (unit \<times> world) option" where
  "read t buffer filename validate w =
     (case device t of
        Some d \<Rightarrow> member_call d (Read buffer filename validate) w
      | None \<Rightarrow> Some ((), cerr_print ''No device loaded for read\<newline>'' w))"

definition write_op :: "Trampoline \<Rightarrow> tensor \<Rightarrow> string \<Rightarrow> bool \<Rightarrow> world \<Rightarrow> (unit \<times> world) option" where
  "write_op t buffer filename validate w =
     (case device t of
        Some d \<Rightarrow> member_call d (Write buffer filename validate) w
      | None \<Rightarrow> Some ((), cerr_print ''No device loaded for write\<newline>'' w))"

definition pread :: "Trampoline \<Rightarrow> tensor \<Rightarrow> string \<Rightarrow> bool \<Rightarrow> bool \<Rightarrow> world \<Rightarrow> (unit \<times> world) option" where
  "pread t buffer filename validate async w =
     (case device t of
        Some d \<Rightarrow> member_call d (Pread buffer filename validate async) w
      | None \<Rightarrow> Some ((), cerr_print ''No device loaded for pread\<newline>'' w))"

definition pwrite :: "Trampoline \<Rightarrow> tensor \<Rightarrow> string \<Rightarrow> bool \<Rightarrow> bool \<Rightarrow> world \<Rightarrow> (unit \<times> world) option" where
  "pwrite t buffer filename validate async w =
     (case device t of
        Some d \<Rightarrow> member_call d (Pwrite buffer filename validate async) w
      | None \<Rightarrow> Some ((), cerr_print ''No device loaded for pwrite\<newline>'' w))"

definition sync_pread :: "Trampoline \<Rightarrow> tensor \<Rightarrow> string \<Rightarrow> world \<Rightarrow> (unit \<times> world) option" where
  "sync_pread t buffer filename w =
     (case device t of
        Some d \<Rightarrow> member_call d (SyncPread buffer filename) w
      | None \<Rightarrow> Some ((), cerr_print ''No device loaded for sync_pread\<newline>'' w))"

definition sync_pwrite :: "Trampoline \<Rightarrow> tensor \<Rightarrow> string \<Rightarrow> world \<Rightarrow> (unit \<times> world) option" where
  "sync_pwrite t buffer filename w =
     (case device t of
        Some d \<Rightarrow> member_call d (SyncPwrite buffer filename) w
      | None \<Rightarrow> Some ((), cerr_print ''No device loaded for sync_pwrite\<newline>'' w))"

definition async_pread :: "Trampoline \<Rightarrow> tensor \<Rightarrow> string \<Rightarrow> world \<Rightarrow> (unit \<times> world) option" where
  "async_pread t buffer filename w =
     (case device t of
        Some d \<Rightarrow> member_call d (AsyncPread buffer filename) w
      | None \<Rightarrow> Some ((), cerr_print ''No device loaded for async_pread\<newline>'' w))"

definition async_pwrite :: "Trampoline \<Rightarrow> tensor \<Rightarrow> string \<Rightarrow> world \<Rightarrow> (unit \<times> world) option" where
  "async_pwrite t buffer filename w =
     (case device t of
        Some d \<Rightarrow> member_call d (AsyncPwrite buffer filename) w
      | None \<Rightarrow> Some ((), cerr_print ''No device loaded for async_pwrite\<newline>'' w))"

definition new_cpu_locked_tensor :: "Trampoline \<Rightarrow> nat \<Rightarrow> tensor \<Rightarrow> world \<Rightarrow> (unit \<times> world) option" where
  "new_cpu_locked_tensor t num_elem example_tensor w =
     (case device t of
        Some d \<Rightarrow> member_call d (NewCpuLockedTensor num_elem example_tensor) w
      | None \<Rightarrow> Some ((), cerr_print ''No device loaded for new_cpu_locked_tensor\<newline>'' w))"

definition free_cpu_locked_tensor :: "Trampoline \<Rightarrow> tensor \<Rightarrow> world \<Rightarrow> (unit \<times> world) option" where
  "free_cpu_locked_tensor t tensor w =
     (case device t of
        Some d \<Rightarrow> member_call d (FreeCpuLockedTensor tensor) w
      | None \<Rightarrow> Some ((), cerr_print ''No device loaded for free_cpu_locked_tensor\<newline>'' w))"

definition wait :: "Trampoline \<Rightarrow> world \<Rightarrow> (unit \<times> world) option" where
  "wait t w =
     (case device t of
        Some d \<Rightarrow> member_call d Wait w
      | None \<Rightarrow> Some ((), cerr_print ''No device loaded for wait\<newline>'' w))"

definition Trampoline_dtor :: "Trampoline \<Rightarrow> world \<Rightarrow> world option" where
  "Trampoline_dtor t w = do {
     w1 \<leftarrow> (case device t of Some d \<Rightarrow> delete_obj d w | None \<Rightarrow> Some w);
     (case handle t of Some h \<Rightarrow> dlclose h w1 | None \<Rightarrow> Some w1)
   }"

section \<open>Class DeepSpeedAIOTrampoline and the module-level functions\<close>

text \<open>
  The class of \<^verbatim>\<open>py_ds_aio.cpp\<close> has the same member names as \<^verbatim>\<open>Trampoline\<close>; its
  members carry the prefix \<open>py_\<close> here and the functions bound on the module the
  prefix \<open>m_\<close>; \<^verbatim>\<open>write\<close> is \<open>write_op\<close>, the bare name being taken. \<^verbatim>\<open>NVMEDevice\<close> is not among the sources: \<^verbatim>\<open>new NVMEDevice()\<close> puts the
  object \<open>nvme w\<close> on the free store.
\<close>

record DeepSpeedAIOTrampoline =
  py_device :: "nat option"

definition py_load_device ::
  "string \<Rightarrow> DeepSpeedAIOTrampoline \<Rightarrow> world \<Rightarrow> (DeepSpeedAIOTrampoline \<times> world) option" where
  "py_load_device device_type t w =
     (if device_type = ''nvme'' then
        (case new_obj (nvme w) w of (p, w1) \<Rightarrow> Some (t\<lparr>py_device := Some p\<rparr>, w1))
      else Some (t, cerr_print (''Unknown device type: '' @ device_type @ ''\<newline>'') w))"

definition py_ctor :: "world \<Rightarrow> (DeepSpeedAIOTrampoline \<times> world) option" where
  "py_ctor w = py_load_device ''nvme'' \<lparr>py_device = None\<rparr> w"

definition py_aio_read :: "DeepSpeedAIOTrampoline \<Rightarrow> tensor \<Rightarrow> string \<Rightarrow> bool \<Rightarrow> world \<Rightarrow> (unit \<times> world) option" where
  "py_aio_read t buffer filename validate w =
     (case py_device t of
        Some d \<Rightarrow> member_call d (AioRead buffer filename validate) w
      | None \<Rightarrow> Some ((), cerr_print ''No device loaded\<newline>'' w))"

definition py_aio_write :: "DeepSpeedAIOTrampoline \<Rightarrow> tensor \<Rightarrow> string \<Rightarrow> bool \<Rightarrow> world \<Rightarrow> (unit \<times> world) option" where
  "py_aio_write t buffer filename validate w =
     (case py_device t of
        Some d \<Rightarrow> member_call d (AioWrite buffer filename validate) w
      | None \<Rightarrow> Some ((), cerr_print ''No device loaded\<newline>'' w))"

definition py_deepspeed_memcpy :: "DeepSpeedAIOTrampoline \<Rightarrow> tensor \<Rightarrow> tensor \<Rightarrow> world \<Rightarrow> (unit \<times> world) option" where
  "py_deepspeed_memcpy t dest src w =
     (case py_device t of
        Some d \<Rightarrow> member_call d (DeepspeedMemcpy dest src) w
      | None \<Rightarrow> Some ((), cerr_print ''No device loaded\<newline>'' w))"

definition py_get_block_size :: "DeepSpeedAIOTrampoline \<Rightarrow> world \<Rightarrow> (int \<times> world) option" where
  "py_get_block_size t w =
     (case py_device t of
        Some d \<Rightarrow> member_get d block_size w
      | None \<Rightarrow> Some (- 1, cerr_print ''No device loaded\<newline>'' w))"

definition py_get_queue_depth :: "DeepSpeedAIOTrampoline \<Rightarrow> world \<Rightarrow> (int \<times> world) option" where
  "py_get_queue_depth t w =
     (case py_device t of
        Some d \<Rightarrow> member_get d queue_depth w
      | None \<Rightarrow> Some (- 1, cerr_print ''No device loaded\<newline>'' w))"

definition py_get_single_submit :: "DeepSpeedAIOTrampoline \<Rightarrow> world \<Rightarrow> (bool \<times> world) option" where
  "py_get_single_submit t w =
     (case py_device t of
        Some d \<Rightarrow> member_get d single_submit w
      | None \<Rightarrow> Some (False, cerr_print ''No device loaded\<newline>'' w))"

definition py_get_overlap_events :: "DeepSpeedAIOTrampoline \<Rightarrow> world \<Rightarrow> (bool \<times> world) option" where
  "py_get_overlap_events t w =
     (case py_device t of
        Some d \<Rightarrow> member_get d overlap_events w
      | None \<Rightarrow> Some (False, cerr_print ''No device loaded\<newline>'' w))"

definition py_get_thread_count :: "DeepSpeedAIOTrampoline \<Rightarrow> world \<Rightarrow> (int \<times> world) option" where
  "py_get_thread_count t w =
     (case py_device t of
        Some d \<Rightarrow> member_get d thread_count w
      | None \<Rightarrow> Some (- 1, cerr_print ''No device loaded\<newline>'' w))"

definition py_read :: "DeepSpeedAIOTrampoline \<Rightarrow> tensor \<Rightarrow> string \<Rightarrow> bool \<Rightarrow> world \<Rightarrow> (unit \<times> world) option" where
  "py_read t buffer filename validate w =
     (case py_device t of
        Some d \<Rightarrow> member_call d (Read buffer filename validate) w
      | None \<Rightarrow> Some ((), cerr_print ''No device loaded\<newline>'' w))"

definition py_write_op :: "DeepSpeedAIOTrampoline \<Rightarrow> tensor \<Rightarrow> string \<Rightarrow> bool \<Rightarrow> world \<Rightarrow> (unit \<times> world) option" where
  "py_write_op t buffer filename validate w =
     (case py_device t of
        Some d \<Rightarrow> member_call d (Write buffer filename validate) w
      | None \<Rightarrow> Some ((), cerr_print ''No device loaded\<newline>'' w))"

definition py_pread :: "DeepSpeedAIOTrampoline \<Rightarrow> tensor \<Rightarrow> string \<Rightarrow> bool \<Rightarrow> bool \<Rightarrow> world \<Rightarrow> (unit \<times> world) option" where
  "py_pread t buffer filename validate async w =
     (case py_device t of
        Some d \<Rightarrow> member_call d (Pread buffer filename validate async) w
      | None \<Rightarrow> Some ((), cerr_print ''No device loaded\<newline>'' w))"

definition py_pwrite :: "DeepSpeedAIOTrampoline \<Rightarrow> tensor \<Rightarrow> string \<Rightarrow> bool \<Rightarrow> bool \<Rightarrow> world \<Rightarrow> (unit \<times> world) option" where
  "py_pwrite t buffer filename validate async w =
     (case py_device t of
        Some d \<Rightarrow> member_call d (Pwrite buffer filename validate async) w
      | None \<Rightarrow> Some ((), cerr_print ''No device loaded\<newline>'' w))"

definition py_sync_pread :: "DeepSpeedAIOTrampoline \<Rightarrow> tensor \<Rightarrow> string \<Rightarrow> world \<Rightarrow> (unit \<times> world) option" where
  "py_sync_pread t buffer filename w =
     (case py_device t of
        Some d \<Rightarrow> member_call d (SyncPread buffer filename) w
      | None \<Rightarrow> Some ((), cerr_print ''No device loaded\<newline>'' w))"

definition py_sync_pwrite :: "DeepSpeedAIOTrampoline \<Rightarrow> tensor \<Rightarrow> string \<Rightarrow> world \<Rightarrow> (unit \<times> world) option" where
  "py_sync_pwrite t buffer filename w =
     (case py_device t of
        Some d \<Rightarrow> member_call d (SyncPwrite buffer filename) w
      | None \<Rightarrow> Some ((), cerr_print ''No device loaded\<newline>'' w))"

definition py_async_pread :: "DeepSpeedAIOTrampoline \<Rightarrow> tensor \<Rightarrow> string \<Rightarrow> world \<Rightarrow> (unit \<times> world) option" where
  "py_async_pread t buffer filename w =
     (case py_device t of
        Some d \<Rightarrow> member_call d (AsyncPread buffer filename) w
      | None \<Rightarrow> Some ((), cerr_print ''No device loaded\<newline>'' w))"

definition py_async_pwrite :: "DeepSpeedAIOTrampoline \<Rightarrow> tensor \<Rightarrow> string \<Rightarrow> world \<Rightarrow> (unit \<times> world) option" where
  "py_async_pwrite t buffer filename w =
     (case py_device t of
        Some d \<Rightarrow> member_call d (AsyncPwrite buffer filename) w
      | None \<Rightarrow> Some ((), cerr_print ''No device loaded\<newline>'' w))"

definition py_new_cpu_locked_tensor :: "DeepSpeedAIOTrampoline \<Rightarrow> nat \<Rightarrow> tensor \<Rightarrow> world \<Rightarrow> (unit \<times> world) option" where
  "py_new_cpu_locked_tensor t num_elem example_tensor w =
     (case py_device t of
        Some d \<Rightarrow> member_call d (NewCpuLockedTensor num_elem example_tensor) w
      | None \<Rightarrow> Some ((), cerr_print ''No device loaded\<newline>'' w))"

definition py_free_cpu_locked_tensor :: "DeepSpeedAIOTrampoline \<Rightarrow> tensor \<Rightarrow> world \<Rightarrow> (unit \<times> world) option" where
  "py_free_cpu_locked_tensor t tensor w =
     (case py_device t of
        Some d \<Rightarrow> member_call d (FreeCpuLockedTensor tensor) w
      | None \<Rightarrow> Some ((), cerr_print ''No device loaded\<newline>'' w))"

definition py_wait :: "DeepSpeedAIOTrampoline \<Rightarrow> world \<Rightarrow> (unit \<times> world) option" where
  "py_wait t w =
     (case py_device t of
        Some d \<Rightarrow> member_call d Wait w
      | None \<Rightarrow> Some ((), cerr_print ''No device loaded\<newline>'' w))"

definition py_dtor :: "DeepSpeedAIOTrampoline \<Rightarrow> world \<Rightarrow> world option" where
  "py_dtor t w = (case py_device t of Some d \<Rightarrow> delete_obj d w | None \<Rightarrow> Some w)"

definition m_aio_write :: "tensor \<Rightarrow> string \<Rightarrow> bool \<Rightarrow> world \<Rightarrow> (unit \<times> world) option" where
  "m_aio_write buffer filename validate w = do {
     (aio, w1) \<leftarrow> py_ctor w;
     (r, w2) \<leftarrow> py_aio_write aio buffer filename validate w1;
     w3 \<leftarrow> py_dtor aio w2;
     Some ((), w3)
   }"

definition m_aio_read :: "tensor \<Rightarrow> string \<Rightarrow> bool \<Rightarrow> world \<Rightarrow> (unit \<times> world) option" where
  "m_aio_read buffer filename validate w = do {
     (aio, w1) \<leftarrow> py_ctor w;
     (r, w2) \<leftarrow> py_aio_read aio buffer filename validate w1;
     w3 \<leftarrow> py_dtor aio w2;
     Some ((), w3)
   }"

definition m_deepspeed_memcpy :: "tensor \<Rightarrow> tensor \<Rightarrow> world \<Rightarrow> (unit \<times> world) option" where
  "m_deepspeed_memcpy dest src w = do {
     (aio, w1) \<leftarrow> py_ctor w;
     (r, w2) \<leftarrow> py_deepspeed_memcpy aio dest src w1;
     w3 \<leftarrow> py_dtor aio w2;
     Some ((), w3)
   }"

definition m_load_device :: "string \<Rightarrow> world \<Rightarrow> (unit \<times> world) option" where
  "m_load_device device_type w = do {
     (aio, w1) \<leftarrow> py_ctor w;
     (aio', w2) \<leftarrow> py_load_device device_type aio w1;
     w3 \<leftarrow> py_dtor aio' w2;
     Some ((), w3)
   }"

section \<open>A concrete world\<close>

text \<open>
  A process running in \<^verbatim>\<open>/w\<close> whose plugin directory holds two complete backends
  (\<^verbatim>\<open>nvme\<close>, and \<^verbatim>\<open>gds\<close>, which answers \<open>-1\<close> for its block size) and a module
  without the factory symbol (\<^verbatim>\<open>bad\<close>). There is no module for \<^verbatim>\<open>null\<close>. The loader's
  messages are those of glibc.
\<close>

definition nvme_dev :: dev_obj where
  "nvme_dev = \<lparr>backend = ''nvme'', block_size = 1048576, queue_depth = 8,
     single_submit = False, overlap_events = True, thread_count = 1, calls = []\<rparr>"

definition gds_dev :: dev_obj where
  "gds_dev = \<lparr>backend = ''gds'', block_size = - 1, queue_depth = 32,
     single_submit = True, overlap_events = False, thread_count = 4, calls = []\<rparr>"

definition nvme_so :: string where
  "nvme_so = ''/w/deepspeed/ops/plugins/nvme_op.so''"

definition gds_so :: string where
  "gds_so = ''/w/deepspeed/ops/plugins/gds_op.so''"

definition bad_so :: string where
  "bad_so = ''/w/deepspeed/ops/plugins/bad_op.so''"

definition null_so :: string where
  "null_so = ''/w/deepspeed/ops/plugins/null_op.so''"

definition plugins :: "string \<rightharpoonup> lib" where
  "plugins =
     [nvme_so \<mapsto> \<lparr>symbols = [''create_device''], factory = nvme_dev\<rparr>,
      gds_so \<mapsto> \<lparr>symbols = [''create_device''], factory = gds_dev\<rparr>,
      bad_so \<mapsto> \<lparr>symbols = [''init''], factory = nvme_dev\<rparr>]"

definition w0 :: world where
  "w0 = \<lparr>cwd = Some ''/w'', libs = plugins,
     open_error = (\<lambda>path. path @ '': cannot open shared object file: No such file or directory''),
     symbol_error = (\<lambda>path name. path @ '': undefined symbol: '' @ name),
     nvme = nvme_dev, heap = Map.empty,
     opened = Map.empty, next_id = 0, dl_error = None, cerr = [], trace = []\<rparr>"

text \<open>
  The states this world passes through in the scenarios below: a trampoline built for
  \<^verbatim>\<open>"null"\<close> (\<open>t_unloaded\<close>, \<open>w_null\<close>); one built for \<^verbatim>\<open>"nvme"\<close> (\<open>t_nvme\<close>,
  \<open>w_nvme\<close>); that one after \<^verbatim>\<open>load_device("null")\<close> (\<open>t_stale\<close>, \<open>w_stale\<close>), after
  \<^verbatim>\<open>load_device("bad")\<close> (\<open>t_stale\<close>, \<open>w_bad\<close>) and after \<^verbatim>\<open>load_device("gds")\<close>
  (\<open>t_gds\<close>, \<open>w_gds\<close>); the \<^verbatim>\<open>nvme\<close> one after an \<^verbatim>\<open>async_pwrite\<close> (\<open>w_busy1\<close>) and an
  \<^verbatim>\<open>async_pread\<close> more (\<open>w_busy\<close>); and the world after the module-level
  \<^verbatim>\<open>load_device("nvme")\<close> (\<open>w_leak\<close>). \<open>nul_type\<close> is a device type with a NUL inside,
  and \<open>w_nocwd\<close> the world \<open>w0\<close> with its current directory gone.
\<close>

definition nul_type :: string where
  "nul_type = ''nvme_op.so'' @ [CHR 0x00] @ ''x''"

definition w_nocwd :: world where
  "w_nocwd = w0\<lparr>cwd := None\<rparr>"

definition t_unloaded :: Trampoline where
  "t_unloaded = \<lparr>device = None, handle = None\<rparr>"

definition w_null :: world where
  "w_null = w0\<lparr>cerr := [''Cannot open library: '' @ null_so @
                         '': cannot open shared object file: No such file or directory'' @ ''\<newline>'']\<rparr>"

definition t_nvme :: Trampoline where
  "t_nvme = \<lparr>device = Some 1, handle = Some 0\<rparr>"

definition w_nvme :: world where
  "w_nvme = w0\<lparr>heap := [1 \<mapsto> nvme_dev], opened := [0 \<mapsto> nvme_so], next_id := 2,
     trace := [DlOpen 0 nvme_so, New 1]\<rparr>"

definition t_stale :: Trampoline where
  "t_stale = \<lparr>device = Some 1, handle = None\<rparr>"

definition w_stale :: world where
  "w_stale = w0\<lparr>next_id := 2,
     cerr := [''Cannot open library: '' @ null_so @
              '': cannot open shared object file: No such file or directory'' @ ''\<newline>''],
     trace := [DlOpen 0 nvme_so, New 1, Delete 1, DlClose 0]\<rparr>"

definition w_bad :: world where
  "w_bad = w0\<lparr>next_id := 3,
     cerr := [''Cannot load symbol create_device: '' @ bad_so @
              '': undefined symbol: create_device'' @ ''\<newline>''],
     trace := [DlOpen 0 nvme_so, New 1, Delete 1, DlClose 0, DlOpen 2 bad_so, DlClose 2]\<rparr>"

definition t_gds :: Trampoline where
  "t_gds = \<lparr>device = Some 3, handle = Some 2\<rparr>"

definition w_gds :: world where
  "w_gds = w0\<lparr>heap := [3 \<mapsto> gds_dev], opened := [2 \<mapsto> gds_so], next_id := 4,
     trace := [DlOpen 0 nvme_so, New 1, Delete 1, DlClose 0, DlOpen 2 gds_so, New 3]\<rparr>"

definition w_busy1 :: world where
  "w_busy1 = w_nvme\<lparr>heap := [1 \<mapsto> nvme_dev\<lparr>calls := [AsyncPwrite 7 ''f'']\<rparr>]\<rparr>"

definition w_busy :: world where
  "w_busy = w_nvme\<lparr>heap := [1 \<mapsto> nvme_dev\<lparr>calls := [AsyncPwrite 7 ''f'', AsyncPread 8 ''g'']\<rparr>]\<rparr>"

definition w_leak :: world where
  "w_leak = w0\<lparr>heap := [0 \<mapsto> nvme_dev], next_id := 2, trace := [New 0, New 1, Delete 1]\<rparr>"

text \<open>
  For the class of \<^verbatim>\<open>py_ds_aio.cpp\<close>: a new \<^verbatim>\<open>DeepSpeedAIOTrampoline\<close> in the world
  \<open>w0\<close> (\<open>a_nvme\<close>, \<open>w_py\<close>), and an object of the class whose device pointer is null.
\<close>

definition a_unloaded :: DeepSpeedAIOTrampoline where
  "a_unloaded = \<lparr>py_device = None\<rparr>"

definition a_nvme :: DeepSpeedAIOTrampoline where
  "a_nvme = \<lparr>py_device = Some 0\<rparr>"

definition w_py :: world where
  "w_py = w0\<lparr>heap := [0 \<mapsto> nvme_dev], next_id := 1, trace := [New 0]\<rparr>"

section \<open>States and observations used in the statements\<close>

text \<open>
  \<open>valid\<close>: each pointer of the trampoline is null or refers to something live.
  \<open>fresh\<close>: identifiers from \<open>next_id\<close> on have not been given out.
  \<open>released\<close>: the world once the pair held by the trampoline has been let go, with
  \<open>teardown_events\<close> the events of doing so.
\<close>

definition valid :: "Trampoline \<Rightarrow> world \<Rightarrow> bool" where
  "valid t w =
     ((case device t of None \<Rightarrow> True | Some d \<Rightarrow> d \<in> dom (heap w)) \<and>
      (case handle t of None \<Rightarrow> True | Some h \<Rightarrow> h \<in> dom (opened w)))"

definition fresh :: "world \<Rightarrow> bool" where
  "fresh w = (\<forall>a. next_id w \<le> a \<longrightarrow> heap w a = None \<and> opened w a = None)"

definition drop_ptr :: "nat option \<Rightarrow> (nat \<rightharpoonup> 'a) \<Rightarrow> (nat \<rightharpoonup> 'a)" where
  "drop_ptr p m = (case p of None \<Rightarrow> m | Some a \<Rightarrow> m(a := None))"

definition teardown_events :: "Trampoline \<Rightarrow> event list" where
  "teardown_events t =
     (case device t of None \<Rightarrow> [] | Some d \<Rightarrow> [Delete d]) @
     (case handle t of None \<Rightarrow> [] | Some h \<Rightarrow> [DlClose h])"

definition released :: "Trampoline \<Rightarrow> world \<Rightarrow> world" where
  "released t w =
     w\<lparr>heap := drop_ptr (device t) (heap w),
       opened := drop_ptr (handle t) (opened w),
       trace := trace w @ teardown_events t\<rparr>"

text \<open>
  Replaying a list of events from a set of live device objects, and from a set of open
  module handles.
\<close>

fun live_after :: "nat set \<Rightarrow> event list \<Rightarrow> nat set" where
  "live_after L [] = L"
| "live_after L (New p # es) = live_after (insert p L) es"
| "live_after L (Delete p # es) = live_after (L - {p}) es"
| "live_after L (e # es) = live_after L es"

fun open_after :: "nat set \<Rightarrow> event list \<Rightarrow> nat set" where
  "open_after H [] = H"
| "open_after H (DlOpen h path # es) = open_after (insert h H) es"
| "open_after H (DlClose h # es) = open_after (H - {h}) es"
| "open_after H (e # es) = open_after H es"

section \<open>Facts about the primitives and the two classes\<close>

lemmas prims = dlopen_def dlerror_def dlsym_def dlclose_def new_obj_def delete_obj_def
  cerr_print_def

lemma released_fields [simp]:
  "cwd (released t w) = cwd w" "libs (released t w) = libs w"
  "open_error (released t w) = open_error w" "symbol_error (released t w) = symbol_error w"
  "next_id (released t w) = next_id w" "cerr (released t w) = cerr w"
  "dl_error (released t w) = dl_error w" "nvme (released t w) = nvme w"
  "heap (released t w) = drop_ptr (device t) (heap w)"
  "opened (released t w) = drop_ptr (handle t) (opened w)"
  "trace (released t w) = trace w @ teardown_events t"
  by (simp_all add: released_def)

lemma drop_ptr_fresh: "m n = None \<Longrightarrow> (drop_ptr p m)(n := None) = drop_ptr p m"
  by (cases p) (auto simp: drop_ptr_def fun_eq_iff)

lemma drop_ptr_simps [simp]: "drop_ptr None m = m" "drop_ptr (Some a) m = m(a := None)"
  by (simp_all add: drop_ptr_def)

text \<open>The first two statements of \<^verbatim>\<open>load_device\<close>, and the whole destructor.\<close>

lemma teardown_ok:
  assumes "valid t w"
  shows "(case device t of Some d \<Rightarrow> delete_obj d w | None \<Rightarrow> Some w) \<bind>
         (\<lambda>w1. (case handle t of Some h \<Rightarrow> dlclose h w1 | None \<Rightarrow> Some w1) \<bind> f) =
         f (released t w)"
  using assms
  by (cases "device t"; cases "handle t")
     (auto simp: valid_def released_def teardown_events_def delete_obj_def dlclose_def)

lemma Trampoline_dtor_valid: "valid t w \<Longrightarrow> Trampoline_dtor t w = Some (released t w)"
  using teardown_ok [of t w Some] by (simp add: Trampoline_dtor_def)

text \<open>The four ways through \<^verbatim>\<open>load_device\<close>.\<close>

lemma load_device_throws:
  assumes "valid t w" and "cwd w = None"
  shows "load_device s t w = Some (Filesystem_error, t, released t w)"
  using assms(2) unfolding load_device_def teardown_ok [OF assms(1)]
  by simp

lemma load_device_open_fails:
  assumes "valid t w" and "cwd w = Some p" and "libs w (c_str (lib_path p s)) = None"
  shows "load_device s t w =
     Some (Returned, t\<lparr>handle := None\<rparr>,
           (released t w)\<lparr>dl_error := None,
             cerr := cerr w @ [''Cannot open library: '' @
                               open_error w (c_str (lib_path p s)) @ ''\<newline>'']\<rparr>)"
  using assms(2,3) unfolding load_device_def teardown_ok [OF assms(1)]
  by (simp add: dlopen_def dlerror_def cerr_print_def)

lemma load_device_symbol_missing:
  assumes "valid t w" and "fresh w" and "cwd w = Some p"
    and "libs w (c_str (lib_path p s)) = Some l"
    and "''create_device'' \<notin> set (symbols l)"
  shows "load_device s t w =
     Some (Returned, t\<lparr>handle := None\<rparr>,
           (released t w)\<lparr>dl_error := None, next_id := Suc (next_id w),
             cerr := cerr w @ [''Cannot load symbol create_device: '' @
                               symbol_error w (c_str (lib_path p s)) ''create_device'' @
                               ''\<newline>''],
             trace := trace w @ teardown_events t @
                      [DlOpen (next_id w) (c_str (lib_path p s)), DlClose (next_id w)]\<rparr>)"
proof -
  from assms(2) have "opened w (next_id w) = None"
    by (simp add: fresh_def)
  then have "(drop_ptr (handle t) (opened w))(next_id w := None) = drop_ptr (handle t) (opened w)"
    by (rule drop_ptr_fresh)
  with assms(3,4,5) show ?thesis
    unfolding load_device_def teardown_ok [OF assms(1)]
    by (simp add: prims)
qed

lemma load_device_succeeds:
  assumes "valid t w" and "cwd w = Some p" and "libs w (c_str (lib_path p s)) = Some l"
    and "''create_device'' \<in> set (symbols l)"
  shows "load_device s t w =
     Some (Returned, t\<lparr>device := Some (Suc (next_id w)), handle := Some (next_id w)\<rparr>,
           (released t w)\<lparr>dl_error := None, next_id := Suc (Suc (next_id w)),
             heap := (drop_ptr (device t) (heap w))(Suc (next_id w) \<mapsto> factory l),
             opened := (drop_ptr (handle t) (opened w))(next_id w \<mapsto> c_str (lib_path p s)),
             trace := trace w @ teardown_events t @
                      [DlOpen (next_id w) (c_str (lib_path p s)), New (Suc (next_id w))]\<rparr>)"
  using assms(2,3,4) unfolding load_device_def teardown_ok [OF assms(1)]
  by (simp add: prims)

text \<open>
  With a device pointer that refers to a deleted object, no member that touches the
  device has a defined outcome.
\<close>

lemma stale_load_undefined:
  assumes "device t = Some d" and "heap w d = None"
  shows "load_device s t w = None" and "Trampoline_dtor t w = None"
  using assms by (simp_all add: load_device_def Trampoline_dtor_def delete_obj_def)

text \<open>Paths.\<close>

lemma c_str_no_nul: "CHR 0x00 \<notin> set p \<Longrightarrow> c_str p = p"
  by (auto simp: c_str_def)

lemma so_directory_eq:
  "so_directory current_path =
     current_path @ (if has_filename current_path then ''/'' else []) @ ''deepspeed/ops/plugins''"
  by (simp add: so_directory_def path_append_def is_absolute_def has_filename_def)

lemma is_absolute_suffix: "is_absolute (device_type @ ''_op.so'') = is_absolute device_type"
  by (cases device_type) (simp_all add: is_absolute_def)

lemma has_filename_so_directory: "has_filename (so_directory current_path)"
  by (simp add: so_directory_eq has_filename_def)

lemma lib_path_eq:
  "lib_path current_path device_type =
     (if is_absolute device_type then device_type @ ''_op.so''
      else so_directory current_path @ ''/'' @ device_type @ ''_op.so'')"
  by (simp add: lib_path_def path_append_def is_absolute_suffix has_filename_so_directory)

text \<open>A member call through a pointer to a live object.\<close>

lemma member_call_live:
  "heap w d = Some obj \<Longrightarrow>
   member_call d c w = Some ((), w\<lparr>heap := (heap w)(d \<mapsto> obj\<lparr>calls := calls obj @ [c]\<rparr>)\<rparr>)"
  by (simp add: member_call_def)

lemma member_get_live: "heap w d = Some obj \<Longrightarrow> member_get d get w = Some (get obj, w)"
  by (simp add: member_get_def)

lemma outstanding_Wait: "outstanding (cs @ [Wait]) = 0"
  by (simp add: outstanding_def)

text \<open>Every forwarding member, called with a null device pointer.\<close>

lemma aio_read_null:
  "device t = None \<Longrightarrow>
   aio_read t buffer filename validate w = Some ((), cerr_print ''No device loaded for aio_read\<newline>'' w)"
  by (simp add: aio_read_def)

lemma aio_write_null:
  "device t = None \<Longrightarrow>
   aio_write t buffer filename validate w = Some ((), cerr_print ''No device loaded for aio_write\<newline>'' w)"
  by (simp add: aio_write_def)

lemma deepspeed_memcpy_null:
  "device t = None \<Longrightarrow>
   deepspeed_memcpy t dest src w = Some ((), cerr_print ''No device loaded for deepspeed_memcpy\<newline>'' w)"
  by (simp add: deepspeed_memcpy_def)

lemma get_block_size_null:
  "device t = None \<Longrightarrow>
   get_block_size t w = Some (- 1, cerr_print ''No device loaded for get_block_size\<newline>'' w)"
  by (simp add: get_block_size_def)

lemma get_queue_depth_null:
  "device t = None \<Longrightarrow>
   get_queue_depth t w = Some (- 1, cerr_print ''No device loaded for get_queue_depth\<newline>'' w)"
  by (simp add: get_queue_depth_def)

lemma get_single_submit_null:
  "device t = None \<Longrightarrow>
   get_single_submit t w = Some (False, cerr_print ''No device loaded for get_single_submit\<newline>'' w)"
  by (simp add: get_single_submit_def)

lemma get_overlap_events_null:
  "device t = None \<Longrightarrow>
   get_overlap_events t w = Some (False, cerr_print ''No device loaded for get_overlap_events\<newline>'' w)"
  by (simp add: get_overlap_events_def)

lemma get_thread_count_null:
  "device t = None \<Longrightarrow>
   get_thread_count t w = Some (- 1, cerr_print ''No device loaded for get_thread_count\<newline>'' w)"
  by (simp add: get_thread_count_def)

lemma read_null:
  "device t = None \<Longrightarrow>
   read t buffer filename validate w = Some ((), cerr_print ''No device loaded for read\<newline>'' w)"
  by (simp add: read_def)

lemma write_op_null:
  "device t = None \<Longrightarrow>
   write_op t buffer filename validate w = Some ((), cerr_print ''No device loaded for write\<newline>'' w)"
  by (simp add: write_op_def)

lemma pread_null:
  "device t = None \<Longrightarrow>
   pread t buffer filename validate async w = Some ((), cerr_print ''No device loaded for pread\<newline>'' w)"
  by (simp add: pread_def)

lemma pwrite_null:
  "device t = None \<Longrightarrow>
   pwrite t buffer filename validate async w = Some ((), cerr_print ''No device loaded for pwrite\<newline>'' w)"
  by (simp add: pwrite_def)

lemma sync_pread_null:
  "device t = None \<Longrightarrow>
   sync_pread t buffer filename w = Some ((), cerr_print ''No device loaded for sync_pread\<newline>'' w)"
  by (simp add: sync_pread_def)

lemma sync_pwrite_null:
  "device t = None \<Longrightarrow>
   sync_pwrite t buffer filename w = Some ((), cerr_print ''No device loaded for sync_pwrite\<newline>'' w)"
  by (simp add: sync_pwrite_def)

lemma async_pread_null:
  "device t = None \<Longrightarrow>
   async_pread t buffer filename w = Some ((), cerr_print ''No device loaded for async_pread\<newline>'' w)"
  by (simp add: async_pread_def)

lemma async_pwrite_null:
  "device t = None \<Longrightarrow>
   async_pwrite t buffer filename w = Some ((), cerr_print ''No device loaded for async_pwrite\<newline>'' w)"
  by (simp add: async_pwrite_def)

lemma new_cpu_locked_tensor_null:
  "device t = None \<Longrightarrow>
   new_cpu_locked_tensor t num_elem example_tensor w = Some ((), cerr_print ''No device loaded for new_cpu_locked_tensor\<newline>'' w)"
  by (simp add: new_cpu_locked_tensor_def)

lemma free_cpu_locked_tensor_null:
  "device t = None \<Longrightarrow>
   free_cpu_locked_tensor t tensor w = Some ((), cerr_print ''No device loaded for free_cpu_locked_tensor\<newline>'' w)"
  by (simp add: free_cpu_locked_tensor_def)

lemma wait_null:
  "device t = None \<Longrightarrow>
   wait t w = Some ((), cerr_print ''No device loaded for wait\<newline>'' w)"
  by (simp add: wait_def)

lemma py_aio_read_null:
  "py_device t = None \<Longrightarrow>
   py_aio_read t buffer filename validate w = Some ((), cerr_print ''No device loaded\<newline>'' w)"
  by (simp add: py_aio_read_def)

lemma py_aio_write_null:
  "py_device t = None \<Longrightarrow>
   py_aio_write t buffer filename validate w = Some ((), cerr_print ''No device loaded\<newline>'' w)"
  by (simp add: py_aio_write_def)

lemma py_deepspeed_memcpy_null:
  "py_device t = None \<Longrightarrow>
   py_deepspeed_memcpy t dest src w = Some ((), cerr_print ''No device loaded\<newline>'' w)"
  by (simp add: py_deepspeed_memcpy_def)

lemma py_get_block_size_null:
  "py_device t = None \<Longrightarrow>
   py_get_block_size t w = Some (- 1, cerr_print ''No device loaded\<newline>'' w)"
  by (simp add: py_get_block_size_def)

lemma py_get_queue_depth_null:
  "py_device t = None \<Longrightarrow>
   py_get_queue_depth t w = Some (- 1, cerr_print ''No device loaded\<newline>'' w)"
  by (simp add: py_get_queue_depth_def)

lemma py_get_single_submit_null:
  "py_device t = None \<Longrightarrow>
   py_get_single_submit t w = Some (False, cerr_print ''No device loaded\<newline>'' w)"
  by (simp add: py_get_single_submit_def)

lemma py_get_overlap_events_null:
  "py_device t = None \<Longrightarrow>
   py_get_overlap_events t w = Some (False, cerr_print ''No device loaded\<newline>'' w)"
  by (simp add: py_get_overlap_events_def)

lemma py_get_thread_count_null:
  "py_device t = None \<Longrightarrow>
   py_get_thread_count t w = Some (- 1, cerr_print ''No device loaded\<newline>'' w)"
  by (simp add: py_get_thread_count_def)

lemma py_read_null:
  "py_device t = None \<Longrightarrow>
   py_read t buffer filename validate w = Some ((), cerr_print ''No device loaded\<newline>'' w)"
  by (simp add: py_read_def)

lemma py_write_op_null:
  "py_device t = None \<Longrightarrow>
   py_write_op t buffer filename validate w = Some ((), cerr_print ''No device loaded\<newline>'' w)"
  by (simp add: py_write_op_def)

lemma py_pread_null:
  "py_device t = None \<Longrightarrow>
   py_pread t buffer filename validate async w = Some ((), cerr_print ''No device loaded\<newline>'' w)"
  by (simp add: py_pread_def)

lemma py_pwrite_null:
  "py_device t = None \<Longrightarrow>
   py_pwrite t buffer filename validate async w = Some ((), cerr_print ''No device loaded\<newline>'' w)"
  by (simp add: py_pwrite_def)

lemma py_sync_pread_null:
  "py_device t = None \<Longrightarrow>
   py_sync_pread t buffer filename w = Some ((), cerr_print ''No device loaded\<newline>'' w)"
  by (simp add: py_sync_pread_def)

lemma py_sync_pwrite_null:
  "py_device t = None \<Longrightarrow>
   py_sync_pwrite t buffer filename w = Some ((), cerr_print ''No device loaded\<newline>'' w)"
  by (simp add: py_sync_pwrite_def)

lemma py_async_pread_null:
  "py_device t = None \<Longrightarrow>
   py_async_pread t buffer filename w = Some ((), cerr_print ''No device loaded\<newline>'' w)"
  by (simp add: py_async_pread_def)

lemma py_async_pwrite_null:
  "py_device t = None \<Longrightarrow>
   py_async_pwrite t buffer filename w = Some ((), cerr_print ''No device loaded\<newline>'' w)"
  by (simp add: py_async_pwrite_def)

lemma py_new_cpu_locked_tensor_null:
  "py_device t = None \<Longrightarrow>
   py_new_cpu_locked_tensor t num_elem example_tensor w = Some ((), cerr_print ''No device loaded\<newline>'' w)"
  by (simp add: py_new_cpu_locked_tensor_def)

lemma py_free_cpu_locked_tensor_null:
  "py_device t = None \<Longrightarrow>
   py_free_cpu_locked_tensor t tensor w = Some ((), cerr_print ''No device loaded\<newline>'' w)"
  by (simp add: py_free_cpu_locked_tensor_def)

lemma py_wait_null:
  "py_device t = None \<Longrightarrow>
   py_wait t w = Some ((), cerr_print ''No device loaded\<newline>'' w)"
  by (simp add: py_wait_def)

lemmas no_device =
  aio_read_null aio_write_null deepspeed_memcpy_null get_block_size_null
  get_queue_depth_null get_single_submit_null get_overlap_events_null get_thread_count_null
  read_null write_op_null pread_null pwrite_null sync_pread_null sync_pwrite_null
  async_pread_null async_pwrite_null new_cpu_locked_tensor_null free_cpu_locked_tensor_null
  wait_null

lemmas py_no_device =
  py_aio_read_null py_aio_write_null py_deepspeed_memcpy_null py_get_block_size_null
  py_get_queue_depth_null py_get_single_submit_null py_get_overlap_events_null
  py_get_thread_count_null py_read_null py_write_op_null py_pread_null py_pwrite_null
  py_sync_pread_null py_sync_pwrite_null py_async_pread_null py_async_pwrite_null
  py_new_cpu_locked_tensor_null py_free_cpu_locked_tensor_null py_wait_null

text \<open>Every forwarding member of \<^verbatim>\<open>Trampoline\<close>, called with a stale device pointer.\<close>

lemma members_stale:
  assumes "device t = Some d" and "heap w d = None"
  shows "aio_read t buffer filename validate w = None"
    and "aio_write t buffer filename validate w = None"
    and "deepspeed_memcpy t dest src w = None"
    and "get_block_size t w = None"
    and "get_queue_depth t w = None"
    and "get_single_submit t w = None"
    and "get_overlap_events t w = None"
    and "get_thread_count t w = None"
    and "read t buffer filename validate w = None"
    and "write_op t buffer filename validate w = None"
    and "pread t buffer filename validate async w = None"
    and "pwrite t buffer filename validate async w = None"
    and "sync_pread t buffer filename w = None"
    and "sync_pwrite t buffer filename w = None"
    and "async_pread t buffer filename w = None"
    and "async_pwrite t buffer filename w = None"
    and "new_cpu_locked_tensor t num_elem example_tensor w = None"
    and "free_cpu_locked_tensor t tensor w = None"
    and "wait t w = None"
  using assms
  by (simp_all add: aio_read_def aio_write_def deepspeed_memcpy_def get_block_size_def get_queue_depth_def get_single_submit_def get_overlap_events_def get_thread_count_def read_def write_op_def pread_def pwrite_def sync_pread_def sync_pwrite_def async_pread_def async_pwrite_def new_cpu_locked_tensor_def free_cpu_locked_tensor_def wait_def
      member_call_def member_get_def)

text \<open>The getters, called with a pointer to a live device.\<close>

lemma query_live:
  assumes "device t = Some d" and "heap w d = Some obj"
  shows "get_block_size t w = Some (block_size obj, w)"
    and "get_queue_depth t w = Some (queue_depth obj, w)"
    and "get_single_submit t w = Some (single_submit obj, w)"
    and "get_overlap_events t w = Some (overlap_events obj, w)"
    and "get_thread_count t w = Some (thread_count obj, w)"
  using assms
  by (simp_all add: get_block_size_def get_queue_depth_def get_single_submit_def
      get_overlap_events_def get_thread_count_def member_get_def)

lemma py_query_live:
  assumes "py_device a = Some d" and "heap w d = Some obj"
  shows "py_get_block_size a w = Some (block_size obj, w)"
    and "py_get_queue_depth a w = Some (queue_depth obj, w)"
    and "py_get_single_submit a w = Some (single_submit obj, w)"
    and "py_get_overlap_events a w = Some (overlap_events obj, w)"
    and "py_get_thread_count a w = Some (thread_count obj, w)"
  using assms
  by (simp_all add: py_get_block_size_def py_get_queue_depth_def py_get_single_submit_def
      py_get_overlap_events_def py_get_thread_count_def member_get_def)

text \<open>The concrete world.\<close>

lemma lib_path_w:
  "c_str (lib_path ''/w'' ''nvme'') = nvme_so" "c_str (lib_path ''/w'' ''gds'') = gds_so"
  "c_str (lib_path ''/w'' ''bad'') = bad_so" "c_str (lib_path ''/w'' ''null'') = null_so"
  "c_str (lib_path ''/w'' nul_type) = nvme_so"
  by (simp_all add: lib_path_eq so_directory_eq is_absolute_def has_filename_def c_str_def
      nvme_so_def gds_so_def bad_so_def null_so_def nul_type_def)

lemma plugins_at:
  "plugins nvme_so = Some \<lparr>symbols = [''create_device''], factory = nvme_dev\<rparr>"
  "plugins gds_so = Some \<lparr>symbols = [''create_device''], factory = gds_dev\<rparr>"
  "plugins bad_so = Some \<lparr>symbols = [''init''], factory = nvme_dev\<rparr>"
  "plugins null_so = None"
  by (simp_all add: plugins_def nvme_so_def gds_so_def bad_so_def null_so_def)

lemma w0_fields [simp]:
  "cwd w0 = Some ''/w''" "libs w0 = plugins" "nvme w0 = nvme_dev" "heap w0 = Map.empty"
  "opened w0 = Map.empty" "next_id w0 = 0" "dl_error w0 = None" "cerr w0 = []" "trace w0 = []"
  "open_error w0 path = path @ '': cannot open shared object file: No such file or directory''"
  "symbol_error w0 path name = path @ '': undefined symbol: '' @ name"
  by (simp_all add: w0_def)

lemma w_nocwd_fields [simp]:
  "cwd w_nocwd = None" "heap w_nocwd = Map.empty" "opened w_nocwd = Map.empty"
  "next_id w_nocwd = 0" "cerr w_nocwd = []" "trace w_nocwd = []"
  by (simp_all add: w_nocwd_def)

lemma dev_fields [simp]:
  "block_size nvme_dev = 1048576" "single_submit nvme_dev = False"
  "overlap_events nvme_dev = True" "calls nvme_dev = []"
  "block_size gds_dev = - 1" "single_submit gds_dev = True"
  "overlap_events gds_dev = False" "calls gds_dev = []"
  by (simp_all add: nvme_dev_def gds_dev_def)

lemma valid_unloaded: "valid t_unloaded w"
  by (simp add: valid_def t_unloaded_def)

lemma fresh_w0: "fresh w0"
  by (simp add: fresh_def)

lemma fresh_nocwd: "fresh w_nocwd"
  by (simp add: fresh_def w_nocwd_def)

lemma valid_nvme: "valid t_nvme w_nvme"
  by (simp add: valid_def t_nvme_def w_nvme_def)

lemma fresh_nvme: "fresh w_nvme"
  by (simp add: fresh_def w_nvme_def)

lemma w_nvme_fields [simp]:
  "cwd w_nvme = Some ''/w''" "libs w_nvme = plugins" "nvme w_nvme = nvme_dev"
  "heap w_nvme = [1 \<mapsto> nvme_dev]" "opened w_nvme = [0 \<mapsto> nvme_so]" "next_id w_nvme = 2"
  "dl_error w_nvme = None" "cerr w_nvme = []" "trace w_nvme = [DlOpen 0 nvme_so, New 1]"
  "open_error w_nvme = open_error w0" "symbol_error w_nvme = symbol_error w0"
  by (simp_all add: w_nvme_def)

lemma ctor_eq: "Trampoline_ctor s w = load_device s t_unloaded w"
  by (simp add: Trampoline_ctor_def t_unloaded_def)

lemma ctor_null: "Trampoline_ctor ''null'' w0 = Some (Returned, t_unloaded, w_null)"
proof -
  have "libs w0 (c_str (lib_path ''/w'' ''null'')) = None"
    by (simp add: lib_path_w plugins_at)
  from load_device_open_fails [OF valid_unloaded _ this] show ?thesis
    by (simp add: ctor_eq lib_path_w released_def teardown_events_def
        t_unloaded_def w_null_def w0_def)
qed

lemma ctor_nvme: "Trampoline_ctor ''nvme'' w0 = Some (Returned, t_nvme, w_nvme)"
proof -
  have "libs w0 (c_str (lib_path ''/w'' ''nvme'')) =
        Some \<lparr>symbols = [''create_device''], factory = nvme_dev\<rparr>"
    by (simp add: lib_path_w plugins_at)
  from load_device_succeeds [OF valid_unloaded _ this] show ?thesis
    by (simp add: ctor_eq lib_path_w released_def teardown_events_def
        t_unloaded_def t_nvme_def w_nvme_def w0_def)
qed

lemma ctor_nul_type: "Trampoline_ctor nul_type w0 = Some (Returned, t_nvme, w_nvme)"
proof -
  have "libs w0 (c_str (lib_path ''/w'' nul_type)) =
        Some \<lparr>symbols = [''create_device''], factory = nvme_dev\<rparr>"
    by (simp add: lib_path_w plugins_at)
  from load_device_succeeds [OF valid_unloaded _ this] show ?thesis
    by (simp add: ctor_eq lib_path_w released_def teardown_events_def
        t_unloaded_def t_nvme_def w_nvme_def w0_def)
qed

lemma nvme_then_null: "load_device ''null'' t_nvme w_nvme = Some (Returned, t_stale, w_stale)"
proof -
  have "libs w_nvme (c_str (lib_path ''/w'' ''null'')) = None"
    by (simp add: lib_path_w plugins_at)
  from load_device_open_fails [OF valid_nvme _ this] show ?thesis
    by (simp add: lib_path_w released_def teardown_events_def
        t_nvme_def t_stale_def w_nvme_def w_stale_def w0_def)
qed

lemma nvme_then_bad: "load_device ''bad'' t_nvme w_nvme = Some (Returned, t_stale, w_bad)"
proof -
  have "libs w_nvme (c_str (lib_path ''/w'' ''bad'')) =
        Some \<lparr>symbols = [''init''], factory = nvme_dev\<rparr>"
    by (simp add: lib_path_w plugins_at)
  from load_device_symbol_missing [OF valid_nvme fresh_nvme _ this] show ?thesis
    by (simp add: lib_path_w released_def teardown_events_def
        t_nvme_def t_stale_def w_nvme_def w_bad_def w0_def)
qed

lemma nvme_then_gds: "load_device ''gds'' t_nvme w_nvme = Some (Returned, t_gds, w_gds)"
proof -
  have "libs w_nvme (c_str (lib_path ''/w'' ''gds'')) =
        Some \<lparr>symbols = [''create_device''], factory = gds_dev\<rparr>"
    by (simp add: lib_path_w plugins_at)
  from load_device_succeeds [OF valid_nvme _ this] show ?thesis
    by (simp add: lib_path_w released_def teardown_events_def
        t_nvme_def t_gds_def w_nvme_def w_gds_def w0_def)
qed

lemma t_fields [simp]:
  "device t_unloaded = None" "handle t_unloaded = None"
  "device t_nvme = Some 1" "handle t_nvme = Some 0"
  "device t_stale = Some 1" "handle t_stale = None"
  "device t_gds = Some 3" "handle t_gds = Some 2"
  by (simp_all add: t_unloaded_def t_nvme_def t_stale_def t_gds_def)

lemma w_null_fields [simp]:
  "heap w_null = Map.empty" "opened w_null = Map.empty" "trace w_null = []"
  "cerr w_null = [''Cannot open library: '' @ null_so @
                  '': cannot open shared object file: No such file or directory'' @ ''\<newline>'']"
  by (simp_all add: w_null_def)

lemma w_stale_fields [simp]:
  "heap w_stale = Map.empty" "opened w_stale = Map.empty"
  "trace w_stale = [DlOpen 0 nvme_so, New 1, Delete 1, DlClose 0]"
  "cerr w_stale = [''Cannot open library: '' @ null_so @
                   '': cannot open shared object file: No such file or directory'' @ ''\<newline>'']"
  by (simp_all add: w_stale_def)

lemma w_bad_fields [simp]:
  "heap w_bad = Map.empty" "opened w_bad = Map.empty"
  "trace w_bad = [DlOpen 0 nvme_so, New 1, Delete 1, DlClose 0, DlOpen 2 bad_so, DlClose 2]"
  "cerr w_bad = [''Cannot load symbol create_device: '' @ bad_so @
                 '': undefined symbol: create_device'' @ ''\<newline>'']"
  by (simp_all add: w_bad_def)

lemma w_gds_fields [simp]:
  "heap w_gds = [3 \<mapsto> gds_dev]" "opened w_gds = [2 \<mapsto> gds_so]" "cerr w_gds = []"
  "trace w_gds = [DlOpen 0 nvme_so, New 1, Delete 1, DlClose 0, DlOpen 2 gds_so, New 3]"
  by (simp_all add: w_gds_def)

lemma valid_gds: "valid t_gds w_gds"
  by (simp add: valid_def)

text \<open>
  The events of two successful loads in a row, replayed from what the trampoline held:
  after each of them at most one device is live and at most one module open.
\<close>

lemma one_pair_at_a_time:
  "list_all (\<lambda>es. card (live_after (set_option d) es) \<le> 1 \<and>
                  card (open_after (set_option h) es) \<le> 1)
     (prefixes ((case d of None \<Rightarrow> [] | Some p \<Rightarrow> [Delete p]) @
                (case h of None \<Rightarrow> [] | Some q \<Rightarrow> [DlClose q]) @
                [DlOpen n px, New (Suc n), Delete (Suc n), DlClose n,
                 DlOpen (Suc (Suc n)) py, New (Suc (Suc (Suc n)))]))"
  by (cases d; cases h) simp_all

lemma a_fields [simp]: "py_device a_unloaded = None" "py_device a_nvme = Some 0"
  by (simp_all add: a_unloaded_def a_nvme_def)

lemma w_py_fields [simp]:
  "heap w_py = [0 \<mapsto> nvme_dev]" "opened w_py = Map.empty" "cerr w_py = []"
  "trace w_py = [New 0]" "next_id w_py = 1" "nvme w_py = nvme_dev"
  by (simp_all add: w_py_def)

lemma py_ctor_w0: "py_ctor w0 = Some (a_nvme, w_py)"
  by (simp add: py_ctor_def py_load_device_def new_obj_def a_nvme_def w_py_def w0_def)

text \<open>The \<^verbatim>\<open>nvme\<close> trampoline with two asynchronous operations issued.\<close>

lemma outstanding_busy:
  "outstanding [] = 0" "outstanding [AsyncPwrite 7 ''f'', AsyncPread 8 ''g''] = 2"
  by (simp_all add: outstanding_def)

lemma w_busy_fields [simp]:
  "heap w_busy1 = [1 \<mapsto> nvme_dev\<lparr>calls := [AsyncPwrite 7 ''f'']\<rparr>]"
  "heap w_busy = [1 \<mapsto> nvme_dev\<lparr>calls := [AsyncPwrite 7 ''f'', AsyncPread 8 ''g'']\<rparr>]"
  by (simp_all add: w_busy1_def w_busy_def)

lemma busy_steps:
  "async_pwrite t_nvme 7 ''f'' w_nvme = Some ((), w_busy1)"
  "async_pread t_nvme 8 ''g'' w_busy1 = Some ((), w_busy)"
  by (simp_all add: async_pwrite_def async_pread_def member_call_def w_busy1_def w_busy_def)

text \<open>What the members of both classes do with a null device pointer, in full.\<close>

lemma null_pointer_no_work:
  assumes "device t = None" and "py_device a = None"
  shows "aio_read t buffer filename validate w =
     Some ((), w\<lparr>cerr := cerr w @ [''No device loaded for aio_read\<newline>'']\<rparr>) \<and>
   aio_write t buffer filename validate w =
     Some ((), w\<lparr>cerr := cerr w @ [''No device loaded for aio_write\<newline>'']\<rparr>) \<and>
   deepspeed_memcpy t dest src w =
     Some ((), w\<lparr>cerr := cerr w @ [''No device loaded for deepspeed_memcpy\<newline>'']\<rparr>) \<and>
   get_block_size t w =
     Some (- 1, w\<lparr>cerr := cerr w @ [''No device loaded for get_block_size\<newline>'']\<rparr>) \<and>
   get_queue_depth t w =
     Some (- 1, w\<lparr>cerr := cerr w @ [''No device loaded for get_queue_depth\<newline>'']\<rparr>) \<and>
   get_single_submit t w =
     Some (False, w\<lparr>cerr := cerr w @ [''No device loaded for get_single_submit\<newline>'']\<rparr>) \<and>
   get_overlap_events t w =
     Some (False, w\<lparr>cerr := cerr w @ [''No device loaded for get_overlap_events\<newline>'']\<rparr>) \<and>
   get_thread_count t w =
     Some (- 1, w\<lparr>cerr := cerr w @ [''No device loaded for get_thread_count\<newline>'']\<rparr>) \<and>
   read t buffer filename validate w =
     Some ((), w\<lparr>cerr := cerr w @ [''No device loaded for read\<newline>'']\<rparr>) \<and>
   write_op t buffer filename validate w =
     Some ((), w\<lparr>cerr := cerr w @ [''No device loaded for write\<newline>'']\<rparr>) \<and>
   pread t buffer filename validate async w =
     Some ((), w\<lparr>cerr := cerr w @ [''No device loaded for pread\<newline>'']\<rparr>) \<and>
   pwrite t buffer filename validate async w =
     Some ((), w\<lparr>cerr := cerr w @ [''No device loaded for pwrite\<newline>'']\<rparr>) \<and>
   sync_pread t buffer filename w =
     Some ((), w\<lparr>cerr := cerr w @ [''No device loaded for sync_pread\<newline>'']\<rparr>) \<and>
   sync_pwrite t buffer filename w =
     Some ((), w\<lparr>cerr := cerr w @ [''No device loaded for sync_pwrite\<newline>'']\<rparr>) \<and>
   async_pread t buffer filename w =
     Some ((), w\<lparr>cerr := cerr w @ [''No device loaded for async_pread\<newline>'']\<rparr>) \<and>
   async_pwrite t buffer filename w =
     Some ((), w\<lparr>cerr := cerr w @ [''No device loaded for async_pwrite\<newline>'']\<rparr>) \<and>
   new_cpu_locked_tensor t num_elem example_tensor w =
     Some ((), w\<lparr>cerr := cerr w @ [''No device loaded for new_cpu_locked_tensor\<newline>'']\<rparr>) \<and>
   free_cpu_locked_tensor t tensor w =
     Some ((), w\<lparr>cerr := cerr w @ [''No device loaded for free_cpu_locked_tensor\<newline>'']\<rparr>) \<and>
   wait t w =
     Some ((), w\<lparr>cerr := cerr w @ [''No device loaded for wait\<newline>'']\<rparr>) \<and>
   py_aio_read a buffer filename validate w =
     Some ((), w\<lparr>cerr := cerr w @ [''No device loaded\<newline>'']\<rparr>) \<and>
   py_aio_write a buffer filename validate w =
     Some ((), w\<lparr>cerr := cerr w @ [''No device loaded\<newline>'']\<rparr>) \<and>
   py_deepspeed_memcpy a dest src w =
     Some ((), w\<lparr>cerr := cerr w @ [''No device loaded\<newline>'']\<rparr>) \<and>
   py_get_block_size a w =
     Some (- 1, w\<lparr>cerr := cerr w @ [''No device loaded\<newline>'']\<rparr>) \<and>
   py_get_queue_depth a w =
     Some (- 1, w\<lparr>cerr := cerr w @ [''No device loaded\<newline>'']\<rparr>) \<and>
   py_get_single_submit a w =
     Some (False, w\<lparr>cerr := cerr w @ [''No device loaded\<newline>'']\<rparr>) \<and>
   py_get_overlap_events a w =
     Some (False, w\<lparr>cerr := cerr w @ [''No device loaded\<newline>'']\<rparr>) \<and>
   py_get_thread_count a w =
     Some (- 1, w\<lparr>cerr := cerr w @ [''No device loaded\<newline>'']\<rparr>) \<and>
   py_read a buffer filename validate w =
     Some ((), w\<lparr>cerr := cerr w @ [''No device loaded\<newline>'']\<rparr>) \<and>
   py_write_op a buffer filename validate w =
     Some ((), w\<lparr>cerr := cerr w @ [''No device loaded\<newline>'']\<rparr>) \<and>
   py_pread a buffer filename validate async w =
     Some ((), w\<lparr>cerr := cerr w @ [''No device loaded\<newline>'']\<rparr>) \<and>
   py_pwrite a buffer filename validate async w =
     Some ((), w\<lparr>cerr := cerr w @ [''No device loaded\<newline>'']\<rparr>) \<and>
   py_sync_pread a buffer filename w =
     Some ((), w\<lparr>cerr := cerr w @ [''No device loaded\<newline>'']\<rparr>) \<and>
   py_sync_pwrite a buffer filename w =
     Some ((), w\<lparr>cerr := cerr w @ [''No device loaded\<newline>'']\<rparr>) \<and>
   py_async_pread a buffer filename w =
     Some ((), w\<lparr>cerr := cerr w @ [''No device loaded\<newline>'']\<rparr>) \<and>
   py_async_pwrite a buffer filename w =
     Some ((), w\<lparr>cerr := cerr w @ [''No device loaded\<newline>'']\<rparr>) \<and>
   py_new_cpu_locked_tensor a num_elem example_tensor w =
     Some ((), w\<lparr>cerr := cerr w @ [''No device loaded\<newline>'']\<rparr>) \<and>
   py_free_cpu_locked_tensor a tensor w =
     Some ((), w\<lparr>cerr := cerr w @ [''No device loaded\<newline>'']\<rparr>) \<and>
   py_wait a w =
     Some ((), w\<lparr>cerr := cerr w @ [''No device loaded\<newline>'']\<rparr>)"
  using assms by (simp add: no_device py_no_device cerr_print_def)

text \<open>
  With a null device pointer \<^verbatim>\<open>get_block_size\<close>, \<^verbatim>\<open>get_queue_depth\<close> and
  \<^verbatim>\<open>get_thread_count\<close> return \<open>-1\<close>, and \<^verbatim>\<open>get_single_submit\<close> and
  \<^verbatim>\<open>get_overlap_events\<close> return \<open>False\<close>, in both classes. \<open>False\<close> is also what a
  loaded backend can answer: in the concrete world the \<^verbatim>\<open>nvme\<close> backend answers it for
  \<^verbatim>\<open>get_single_submit\<close> and the \<^verbatim>\<open>gds\<close> backend for \<^verbatim>\<open>get_overlap_events\<close>.
\<close>

lemma null_pointer_queries:
  assumes "device t = None" and "py_device a = None"
  shows "map_option fst (get_block_size t w) = Some (- 1) \<and>
     map_option fst (get_queue_depth t w) = Some (- 1) \<and>
     map_option fst (get_thread_count t w) = Some (- 1) \<and>
     map_option fst (get_single_submit t w) = Some False \<and>
     map_option fst (get_overlap_events t w) = Some False \<and>
     map_option fst (py_get_block_size a w) = Some (- 1) \<and>
     map_option fst (py_get_queue_depth a w) = Some (- 1) \<and>
     map_option fst (py_get_thread_count a w) = Some (- 1) \<and>
     map_option fst (py_get_single_submit a w) = Some False \<and>
     map_option fst (py_get_overlap_events a w) = Some False \<and>
     Trampoline_ctor ''nvme'' w0 = Some (Returned, t_nvme, w_nvme) \<and>
     map_option fst (get_single_submit t_nvme w_nvme) = Some False \<and>
     load_device ''gds'' t_nvme w_nvme = Some (Returned, t_gds, w_gds) \<and>
     map_option fst (get_overlap_events t_gds w_gds) = Some False \<and>
     py_ctor w0 = Some (a_nvme, w_py) \<and>
     map_option fst (py_get_single_submit a_nvme w_py) = Some False"
  using assms
  by (simp add: no_device py_no_device ctor_nvme nvme_then_gds py_ctor_w0
      query_live [of t_nvme 1 w_nvme nvme_dev] query_live [of t_gds 3 w_gds gds_dev]
      py_query_live [of a_nvme 0 w_py nvme_dev])

section \<open>The claims\<close>

subsection \<open>C5: the module path\<close>

text \<open>
  C5, as amended. For a device type that does not begin with \<^verbatim>\<open>/\<close> the module path is
  the plugins directory, a separator, the device type and \<^verbatim>\<open>_op.so\<close>, the plugins
  directory being \<^verbatim>\<open>deepspeed/ops/plugins\<close> under the current directory of the process.
  For a device type that begins with \<^verbatim>\<open>/\<close> the path is the device type followed by
  \<^verbatim>\<open>_op.so\<close>, and the plugins directory plays no part. The path is a function of the
  current directory and the device type alone: it is defined for every device type and
  does not look at which modules exist.
\<close>

theorem lib_path_convention:
  "lib_path current_path device_type =
     (if is_absolute device_type then device_type @ ''_op.so''
      else so_directory current_path @ ''/'' @ device_type @ ''_op.so'') \<and>
   so_directory current_path =
     current_path @ (if has_filename current_path then ''/'' else []) @ ''deepspeed/ops/plugins''"
  by (rule conjI [OF lib_path_eq so_directory_eq])

text \<open>The theorem at three inputs, one of them a device type no module exists for.\<close>

theorem lib_path_convention_witness:
  "lib_path ''/w'' ''nvme'' = ''/w/deepspeed/ops/plugins/nvme_op.so'' \<and>
   lib_path ''/'' ''nvme'' = ''/deepspeed/ops/plugins/nvme_op.so'' \<and>
   lib_path ''/w'' ''no such device'' = ''/w/deepspeed/ops/plugins/no such device_op.so''"
  using lib_path_convention [of "''/w''" "''nvme''"]
    lib_path_convention [of "''/''" "''nvme''"]
    lib_path_convention [of "''/w''" "''no such device''"]
  by (simp add: is_absolute_def has_filename_def)

text \<open>
  C5 as stated fails for the device type \<^verbatim>\<open>/tmp/evil\<close>: the path is
  \<^verbatim>\<open>/tmp/evil_op.so\<close>, which does not lie under the plugins directory.
\<close>

theorem lib_path_absolute_identifier:
  "lib_path ''/w'' ''/tmp/evil'' = ''/tmp/evil_op.so'' \<and>
   \<not> prefix (so_directory ''/w'') (lib_path ''/w'' ''/tmp/evil'')"
  by (simp add: lib_path_eq so_directory_eq is_absolute_def has_filename_def)

subsection \<open>C1: what a call of load_device does to the pair it holds\<close>

text \<open>
  C1, as amended. The statement is about a call of \<^verbatim>\<open>load_device\<close> made while the
  device pointer and the module handle are each null or refer to something live. Such a
  call lets go of the pair it holds before it does anything else: the active device is
  deleted and the active module closed first, whatever happens next. The module it then
  opens is the one named by the module path up to its first NUL character. When that
  module cannot be opened, or has no \<^verbatim>\<open>create_device\<close>, the call returns and nothing new
  is held afterwards: the module handle is null, a module the call opened has been closed
  again, no device has been created, and a trampoline that held no device before holds
  none after. When the load succeeds, the new module and the new device are live and are
  the ones the trampoline holds, and the events of the call come in the order: old device
  deleted, old module closed, new module opened, new device created. When the current
  directory cannot be determined, the exception of \<^verbatim>\<open>current_path\<close> leaves the call
  after the old pair has been let go and before anything is opened or created.
\<close>

theorem load_device_tears_down_first:
  assumes "valid t w" and "fresh w"
  shows "\<exists>c t' w'. load_device s t w = Some (c, t', w') \<and>
     (case cwd w of
        None \<Rightarrow>
          c = Filesystem_error \<and>
          heap w' = drop_ptr (device t) (heap w) \<and>
          opened w' = drop_ptr (handle t) (opened w) \<and>
          trace w' = trace w @ teardown_events t
      | Some p \<Rightarrow>
          c = Returned \<and>
          (case libs w (c_str (lib_path p s)) of
             None \<Rightarrow>
               handle t' = None \<and> (device t = None \<longrightarrow> device t' = None) \<and>
               heap w' = drop_ptr (device t) (heap w) \<and>
               opened w' = drop_ptr (handle t) (opened w) \<and>
               trace w' = trace w @ teardown_events t
           | Some l \<Rightarrow>
               if ''create_device'' \<in> set (symbols l) then
                 device t' = Some (Suc (next_id w)) \<and> handle t' = Some (next_id w) \<and>
                 heap w' = (drop_ptr (device t) (heap w))(Suc (next_id w) \<mapsto> factory l) \<and>
                 opened w' =
                   (drop_ptr (handle t) (opened w))(next_id w \<mapsto> c_str (lib_path p s)) \<and>
                 trace w' = trace w @ teardown_events t @
                            [DlOpen (next_id w) (c_str (lib_path p s)), New (Suc (next_id w))]
               else
                 handle t' = None \<and> (device t = None \<longrightarrow> device t' = None) \<and>
                 heap w' = drop_ptr (device t) (heap w) \<and>
                 opened w' = drop_ptr (handle t) (opened w) \<and>
                 trace w' = trace w @ teardown_events t @
                            [DlOpen (next_id w) (c_str (lib_path p s)), DlClose (next_id w)]))"
proof (cases "cwd w")
  case None
  from load_device_throws [OF assms(1) None] None show ?thesis
    by simp
next
  case cwd: (Some p)
  show ?thesis
  proof (cases "libs w (c_str (lib_path p s))")
    case None
    from load_device_open_fails [OF assms(1) cwd None] cwd None show ?thesis
      by simp
  next
    case (Some l)
    show ?thesis
    proof (cases "''create_device'' \<in> set (symbols l)")
      case True
      from load_device_succeeds [OF assms(1) cwd Some True] cwd Some True show ?thesis
        by simp
    next
      case False
      from load_device_symbol_missing [OF assms cwd Some False] cwd Some False show ?thesis
        by simp
    qed
  qed
qed

text \<open>
  The theorem on a trampoline that holds the \<^verbatim>\<open>nvme\<close> backend, for a module that is
  absent, one without the factory symbol and one that loads; on a trampoline that holds
  nothing, for an absent module and for a device type with a NUL inside, which loads the
  module named by what stands before the NUL; and in a world whose current directory is
  gone.
\<close>

theorem load_device_tears_down_first_witness:
  "valid t_nvme w_nvme \<and> fresh w_nvme \<and>
   (\<exists>c t' w'. load_device ''null'' t_nvme w_nvme = Some (c, t', w') \<and> c = Returned \<and>
      handle t' = None \<and> heap w' = Map.empty \<and> opened w' = Map.empty \<and>
      trace w' = [DlOpen 0 nvme_so, New 1, Delete 1, DlClose 0]) \<and>
   (\<exists>c t' w'. load_device ''bad'' t_nvme w_nvme = Some (c, t', w') \<and> c = Returned \<and>
      handle t' = None \<and> heap w' = Map.empty \<and> opened w' = Map.empty \<and>
      trace w' = [DlOpen 0 nvme_so, New 1, Delete 1, DlClose 0, DlOpen 2 bad_so, DlClose 2]) \<and>
   (\<exists>c t' w'. load_device ''gds'' t_nvme w_nvme = Some (c, t', w') \<and> c = Returned \<and>
      device t' = Some 3 \<and> handle t' = Some 2 \<and>
      heap w' = [3 \<mapsto> gds_dev] \<and> opened w' = [2 \<mapsto> gds_so] \<and>
      trace w' = [DlOpen 0 nvme_so, New 1, Delete 1, DlClose 0, DlOpen 2 gds_so, New 3]) \<and>
   valid t_unloaded w0 \<and> fresh w0 \<and>
   (\<exists>c t' w'. load_device ''null'' t_unloaded w0 = Some (c, t', w') \<and> c = Returned \<and>
      device t' = None \<and> handle t' = None \<and> heap w' = Map.empty \<and> opened w' = Map.empty \<and>
      trace w' = []) \<and>
   (\<exists>c t' w'. load_device nul_type t_unloaded w0 = Some (c, t', w') \<and> c = Returned \<and>
      device t' = Some 1 \<and> handle t' = Some 0 \<and>
      heap w' = [1 \<mapsto> nvme_dev] \<and> opened w' = [0 \<mapsto> nvme_so]) \<and>
   valid t_unloaded w_nocwd \<and> fresh w_nocwd \<and>
   (\<exists>c t' w'. load_device ''nvme'' t_unloaded w_nocwd = Some (c, t', w') \<and>
      c = Filesystem_error \<and> heap w' = Map.empty \<and> opened w' = Map.empty \<and> trace w' = [])"
  using load_device_tears_down_first [OF valid_nvme fresh_nvme, of "''null''"]
    load_device_tears_down_first [OF valid_nvme fresh_nvme, of "''bad''"]
    load_device_tears_down_first [OF valid_nvme fresh_nvme, of "''gds''"]
    load_device_tears_down_first [OF valid_unloaded fresh_w0, of "''null''"]
    load_device_tears_down_first [OF valid_unloaded fresh_w0, of nul_type]
    load_device_tears_down_first [OF valid_unloaded fresh_nocwd, of "''nvme''"]
    valid_nvme fresh_nvme valid_unloaded [of w0] fresh_w0 valid_unloaded [of w_nocwd] fresh_nocwd
  by (simp add: nvme_then_null nvme_then_bad nvme_then_gds ctor_null [unfolded ctor_eq]
      ctor_nul_type [unfolded ctor_eq] load_device_throws [OF valid_unloaded] teardown_events_def)

text \<open>
  C1 as stated fails: a trampoline that holds the \<^verbatim>\<open>nvme\<close> backend and is asked for
  \<^verbatim>\<open>"null"\<close>, which has no module, has its device deleted and its module closed by the
  failed call. And a load that succeeds deletes and closes the old pair before the new
  module is opened, not after. After the failed call the device pointer still holds the
  address of the deleted device, and a further \<^verbatim>\<open>load_device\<close> has no defined outcome.
\<close>

theorem failed_load_releases_active_pair:
  "Trampoline_ctor ''nvme'' w0 = Some (Returned, t_nvme, w_nvme) \<and>
   heap w_nvme 1 = Some nvme_dev \<and> opened w_nvme 0 = Some nvme_so \<and>
   libs w_nvme (c_str (lib_path ''/w'' ''null'')) = None \<and>
   load_device ''null'' t_nvme w_nvme = Some (Returned, t_stale, w_stale) \<and>
   heap w_stale 1 = None \<and> opened w_stale 0 = None \<and>
   handle t_nvme = Some 0 \<and> handle t_stale = None \<and> device t_stale = Some 1 \<and>
   load_device ''nvme'' t_stale w_stale = None \<and>
   load_device ''gds'' t_nvme w_nvme = Some (Returned, t_gds, w_gds) \<and>
   trace w_gds = trace w_nvme @ [Delete 1, DlClose 0, DlOpen 2 gds_so, New 3]"
  by (simp add: ctor_nvme nvme_then_null nvme_then_gds lib_path_w plugins_at
      stale_load_undefined [of t_stale 1 w_stale])

subsection \<open>C4: two successful loads in a row\<close>

text \<open>
  C4. Let the trampoline hold valid pointers, let the current directory be \<open>p\<close>, and let
  the modules of the device types \<open>x\<close> and \<open>y\<close> both exist and export
  \<^verbatim>\<open>create_device\<close>. Then \<^verbatim>\<open>load_device(x)\<close> followed by \<^verbatim>\<open>load_device(y)\<close> both return;
  the trampoline ends holding the device built by the factory of \<open>y\<close> and the handle of
  the module of \<open>y\<close>; the device of \<open>x\<close> has been deleted and its module closed; apart
  from what the trampoline held at the start, which is gone as well, the free store and
  the table of open modules differ from the initial ones by exactly that one device and
  that one module; and at every point of the sequence of events of the two calls at most
  one device of the trampoline is live and at most one of its modules is open.
\<close>

theorem load_device_twice:
  assumes "valid t w" and "fresh w" and "cwd w = Some p"
    and "libs w (c_str (lib_path p x)) = Some lx" and "''create_device'' \<in> set (symbols lx)"
    and "libs w (c_str (lib_path p y)) = Some ly" and "''create_device'' \<in> set (symbols ly)"
  shows "\<exists>t1 w1 t2 w2.
     load_device x t w = Some (Returned, t1, w1) \<and>
     load_device y t1 w1 = Some (Returned, t2, w2) \<and>
     device t1 = Some (next_id w + 1) \<and> handle t1 = Some (next_id w) \<and>
     heap w1 (next_id w + 1) = Some (factory lx) \<and>
     opened w1 (next_id w) = Some (c_str (lib_path p x)) \<and>
     device t2 = Some (next_id w + 3) \<and> handle t2 = Some (next_id w + 2) \<and>
     heap w2 = (drop_ptr (device t) (heap w))(next_id w + 3 \<mapsto> factory ly) \<and>
     opened w2 = (drop_ptr (handle t) (opened w))(next_id w + 2 \<mapsto> c_str (lib_path p y)) \<and>
     heap w2 (next_id w + 1) = None \<and> opened w2 (next_id w) = None \<and>
     trace w2 = trace w @ teardown_events t @
       [DlOpen (next_id w) (c_str (lib_path p x)), New (next_id w + 1),
        Delete (next_id w + 1), DlClose (next_id w),
        DlOpen (next_id w + 2) (c_str (lib_path p y)), New (next_id w + 3)] \<and>
     list_all (\<lambda>es. card (live_after (set_option (device t)) es) \<le> 1 \<and>
                     card (open_after (set_option (handle t)) es) \<le> 1)
       (prefixes (teardown_events t @
         [DlOpen (next_id w) (c_str (lib_path p x)), New (next_id w + 1),
          Delete (next_id w + 1), DlClose (next_id w),
          DlOpen (next_id w + 2) (c_str (lib_path p y)), New (next_id w + 3)]))"
proof -
  define n where "n = next_id w"
  define px where "px = c_str (lib_path p x)"
  define py where "py = c_str (lib_path p y)"
  define t1 where "t1 = t\<lparr>device := Some (Suc n), handle := Some n\<rparr>"
  define w1 where "w1 = (released t w)\<lparr>dl_error := None, next_id := Suc (Suc n),
     heap := (drop_ptr (device t) (heap w))(Suc n \<mapsto> factory lx),
     opened := (drop_ptr (handle t) (opened w))(n \<mapsto> px),
     trace := trace w @ teardown_events t @ [DlOpen n px, New (Suc n)]\<rparr>"
  have first: "load_device x t w = Some (Returned, t1, w1)"
    using load_device_succeeds [OF assms(1,3,4,5)] by (simp add: t1_def w1_def n_def px_def)
  have v1: "valid t1 w1"
    by (simp add: valid_def t1_def w1_def)
  have c1: "cwd w1 = Some p"
    using assms(3) by (simp add: w1_def)
  have l1: "libs w1 (c_str (lib_path p y)) = Some ly"
    using assms(6) by (simp add: w1_def)
  from assms(2) have fr: "heap w (Suc n) = None" "opened w n = None"
    by (simp_all add: fresh_def n_def)
  have hp: "drop_ptr (device t1) (heap w1) = drop_ptr (device t) (heap w)"
    using fr(1) drop_ptr_fresh [of "heap w" "Suc n" "device t"] by (simp add: t1_def w1_def)
  have op: "drop_ptr (handle t1) (opened w1) = drop_ptr (handle t) (opened w)"
    using fr(2) drop_ptr_fresh [of "opened w" n "handle t"] by (simp add: t1_def w1_def)
  have td: "teardown_events t1 = [Delete (Suc n), DlClose n]"
    by (simp add: teardown_events_def t1_def)
  have nx: "next_id w1 = Suc (Suc n)" "trace w1 =
      trace w @ teardown_events t @ [DlOpen n px, New (Suc n)]"
    by (simp_all add: w1_def)
  note second = load_device_succeeds [OF v1 c1 l1 assms(7), unfolded hp op td nx,
      folded py_def]
  have fr2: "drop_ptr (device t) (heap w) (Suc n) = None" "drop_ptr (handle t) (opened w) n = None"
    using fr by (cases "device t"; cases "handle t"; simp)+
  have inv: "list_all (\<lambda>es. card (live_after (set_option (device t)) es) \<le> 1 \<and>
                     card (open_after (set_option (handle t)) es) \<le> 1)
       (prefixes (teardown_events t @
         [DlOpen n px, New (Suc n), Delete (Suc n), DlClose n,
          DlOpen (Suc (Suc n)) py, New (Suc (Suc (Suc n)))]))"
    unfolding teardown_events_def append_assoc by (rule one_pair_at_a_time)
  show ?thesis
    unfolding px_def [symmetric] py_def [symmetric]
    apply (rule exI [of _ t1], rule exI [of _ w1])
    apply (rule exI [of _ "t1\<lparr>device := Some (Suc (Suc (Suc n))), handle := Some (Suc (Suc n))\<rparr>"])
    apply (rule exI)
    apply (intro conjI)
    apply (rule first)
    apply (rule second)
    using fr2 inv
    apply (simp_all add: t1_def w1_def n_def [symmetric] eval_nat_numeral)
    done
qed

text \<open>
  The theorem on a new trampoline in the concrete world, loading \<^verbatim>\<open>nvme\<close> and then
  \<^verbatim>\<open>gds\<close>.
\<close>

theorem load_device_twice_witness:
  "valid t_unloaded w0 \<and> fresh w0 \<and> cwd w0 = Some ''/w'' \<and>
   libs w0 (c_str (lib_path ''/w'' ''nvme'')) =
     Some \<lparr>symbols = [''create_device''], factory = nvme_dev\<rparr> \<and>
   libs w0 (c_str (lib_path ''/w'' ''gds'')) =
     Some \<lparr>symbols = [''create_device''], factory = gds_dev\<rparr> \<and>
   (\<exists>t1 w1 t2 w2.
      load_device ''nvme'' t_unloaded w0 = Some (Returned, t1, w1) \<and>
      load_device ''gds'' t1 w1 = Some (Returned, t2, w2) \<and>
      device t1 = Some 1 \<and> handle t1 = Some 0 \<and>
      device t2 = Some 3 \<and> handle t2 = Some 2 \<and>
      heap w2 = [3 \<mapsto> gds_dev] \<and> opened w2 = [2 \<mapsto> gds_so] \<and>
      trace w2 = [DlOpen 0 nvme_so, New 1, Delete 1, DlClose 0, DlOpen 2 gds_so, New 3])"
proof -
  have nvme: "libs w0 (c_str (lib_path ''/w'' ''nvme'')) =
      Some \<lparr>symbols = [''create_device''], factory = nvme_dev\<rparr>"
    and gds: "libs w0 (c_str (lib_path ''/w'' ''gds'')) =
      Some \<lparr>symbols = [''create_device''], factory = gds_dev\<rparr>"
    by (simp_all add: lib_path_w plugins_at)
  from load_device_twice [OF valid_unloaded fresh_w0 _ nvme _ gds] nvme gds
    valid_unloaded [of w0] fresh_w0
  show ?thesis
    by (simp add: ctor_nvme [unfolded ctor_eq] nvme_then_gds lib_path_w)
qed

subsection \<open>C8: device pointer and module handle null together\<close>

text \<open>
  C8 does not hold of the code. A trampoline built for \<^verbatim>\<open>"nvme"\<close> holds device 1 and
  module 0. \<^verbatim>\<open>load_device("null")\<close>, for which no module exists, deletes the device,
  closes the module and returns with the module handle null and the device pointer still
  holding the address of the deleted device; so does \<^verbatim>\<open>load_device("bad")\<close>, whose
  module has no \<^verbatim>\<open>create_device\<close>. From that state \<^verbatim>\<open>get_block_size\<close> and \<^verbatim>\<open>wait\<close>
  call through the stale pointer, and \<^verbatim>\<open>load_device\<close> and the destructor delete the
  device a second time.
\<close>

theorem failed_load_leaves_stale_device:
  "Trampoline_ctor ''nvme'' w0 = Some (Returned, t_nvme, w_nvme) \<and>
   device t_nvme = Some 1 \<and> handle t_nvme = Some 0 \<and>
   load_device ''null'' t_nvme w_nvme = Some (Returned, t_stale, w_stale) \<and>
   device t_stale = Some 1 \<and> handle t_stale = None \<and> heap w_stale 1 = None \<and>
   load_device ''bad'' t_nvme w_nvme = Some (Returned, t_stale, w_bad) \<and> heap w_bad 1 = None \<and>
   get_block_size t_stale w_stale = None \<and>
   wait t_stale w_stale = None \<and>
   load_device ''nvme'' t_stale w_stale = None \<and>
   Trampoline_dtor t_stale w_stale = None"
  by (simp add: ctor_nvme nvme_then_null nvme_then_bad
      stale_load_undefined [of t_stale 1 w_stale] members_stale [of t_stale 1 w_stale])

subsection \<open>C2: operations called with no device\<close>

text \<open>
  C2 does not hold of the code. A trampoline built for \<^verbatim>\<open>"nvme"\<close> and then asked for
  \<^verbatim>\<open>"null"\<close>, which has no module, has no device: the free store is empty and no module
  is open. Its device pointer is not null, though, but holds the address of the deleted
  device, and every one of the nineteen forwarding members calls through it instead of
  reporting that no device is loaded: none of them has a defined outcome.
\<close>

theorem members_after_failed_load:
  "Trampoline_ctor ''nvme'' w0 = Some (Returned, t_nvme, w_nvme) \<and>
   load_device ''null'' t_nvme w_nvme = Some (Returned, t_stale, w_stale) \<and>
   heap w_stale = Map.empty \<and> opened w_stale = Map.empty \<and> device t_stale = Some 1 \<and>
   aio_read t_stale 7 ''f'' True w_stale = None \<and>
   aio_write t_stale 7 ''f'' True w_stale = None \<and>
   deepspeed_memcpy t_stale 7 8 w_stale = None \<and>
   get_block_size t_stale w_stale = None \<and>
   get_queue_depth t_stale w_stale = None \<and>
   get_single_submit t_stale w_stale = None \<and>
   get_overlap_events t_stale w_stale = None \<and>
   get_thread_count t_stale w_stale = None \<and>
   read t_stale 7 ''f'' True w_stale = None \<and>
   write_op t_stale 7 ''f'' True w_stale = None \<and>
   pread t_stale 7 ''f'' True False w_stale = None \<and>
   pwrite t_stale 7 ''f'' True True w_stale = None \<and>
   sync_pread t_stale 7 ''f'' w_stale = None \<and>
   sync_pwrite t_stale 7 ''f'' w_stale = None \<and>
   async_pread t_stale 7 ''f'' w_stale = None \<and>
   async_pwrite t_stale 7 ''f'' w_stale = None \<and>
   new_cpu_locked_tensor t_stale 4 7 w_stale = None \<and>
   free_cpu_locked_tensor t_stale 7 w_stale = None \<and>
   wait t_stale w_stale = None"
  by (simp add: ctor_nvme nvme_then_null members_stale [of t_stale 1 w_stale])

subsection \<open>C9: what the queries return with no device\<close>

text \<open>
  C9 does not hold of the code. A trampoline built for \<^verbatim>\<open>"nvme"\<close> and then asked for
  \<^verbatim>\<open>"null"\<close> has no device, and its device pointer holds the address of the deleted
  one. The five queries then read through that pointer: they do not return \<open>-1\<close> or
  \<open>False\<close>, and have no defined outcome. On a trampoline that never loaded anything they
  return \<open>-1\<close> and \<open>False\<close>.
\<close>

theorem queries_after_failed_load:
  "Trampoline_ctor ''nvme'' w0 = Some (Returned, t_nvme, w_nvme) \<and>
   load_device ''null'' t_nvme w_nvme = Some (Returned, t_stale, w_stale) \<and>
   heap w_stale = Map.empty \<and> opened w_stale = Map.empty \<and> device t_stale = Some 1 \<and>
   get_block_size t_stale w_stale = None \<and>
   get_queue_depth t_stale w_stale = None \<and>
   get_thread_count t_stale w_stale = None \<and>
   get_single_submit t_stale w_stale = None \<and>
   get_overlap_events t_stale w_stale = None \<and>
   Trampoline_ctor ''null'' w0 = Some (Returned, t_unloaded, w_null) \<and>
   map_option fst (get_block_size t_unloaded w_null) = Some (- 1) \<and>
   map_option fst (get_queue_depth t_unloaded w_null) = Some (- 1) \<and>
   map_option fst (get_thread_count t_unloaded w_null) = Some (- 1) \<and>
   map_option fst (get_single_submit t_unloaded w_null) = Some False \<and>
   map_option fst (get_overlap_events t_unloaded w_null) = Some False"
  by (simp add: ctor_nvme nvme_then_null ctor_null members_stale [of t_stale 1 w_stale]
      no_device)

subsection \<open>C3: how failures reach the caller\<close>

text \<open>
  C3, as amended. The statement is about calls made while the device pointer and the
  module handle are each null or refer to something live. The failures the trampoline
  itself detects do not end such a call: \<^verbatim>\<open>load_device\<close> returns whether the module
  opens or not and whether it has \<^verbatim>\<open>create_device\<close> or not, and a forwarding member
  called with a null device pointer returns. Each such failure is reported as one line on
  the error stream and in no other way: \<^verbatim>\<open>Cannot open library: \<close> followed by the
  loader's own message, \<^verbatim>\<open>Cannot load symbol create_device: \<close> followed by the loader's
  own message, or \<^verbatim>\<open>No device loaded for \<close> followed by the name of the member. No value
  that tells the failure reaches the caller: \<^verbatim>\<open>load_device\<close> and the members that
  transfer, copy, manage locked buffers or wait return nothing, and a query returns
  \<open>-1\<close> or \<open>False\<close>. A \<^verbatim>\<open>load_device\<close> called while the current directory cannot be
  determined does not return: the exception of \<^verbatim>\<open>current_path\<close> goes to the caller,
  and nothing is written to the error stream.
\<close>

theorem failures_go_to_cerr:
  assumes "valid t w" and "fresh w"
  shows "(\<exists>c t' w'. load_device s t w = Some (c, t', w') \<and>
       (case cwd w of
          None \<Rightarrow> c = Filesystem_error \<and> cerr w' = cerr w
        | Some p \<Rightarrow>
            c = Returned \<and>
            cerr w' = cerr w @
              (case libs w (c_str (lib_path p s)) of
                 None \<Rightarrow> [''Cannot open library: '' @
                           open_error w (c_str (lib_path p s)) @ ''\<newline>'']
               | Some l \<Rightarrow>
                   if ''create_device'' \<in> set (symbols l) then []
                   else [''Cannot load symbol create_device: '' @
                         symbol_error w (c_str (lib_path p s)) ''create_device'' @
                         ''\<newline>'']))) \<and>
     (device t = None \<longrightarrow>
      aio_read t buffer filename validate w =
        Some ((), w\<lparr>cerr := cerr w @ [''No device loaded for aio_read\<newline>'']\<rparr>) \<and>
      aio_write t buffer filename validate w =
        Some ((), w\<lparr>cerr := cerr w @ [''No device loaded for aio_write\<newline>'']\<rparr>) \<and>
      deepspeed_memcpy t dest src w =
        Some ((), w\<lparr>cerr := cerr w @ [''No device loaded for deepspeed_memcpy\<newline>'']\<rparr>) \<and>
      get_block_size t w =
        Some (- 1, w\<lparr>cerr := cerr w @ [''No device loaded for get_block_size\<newline>'']\<rparr>) \<and>
      get_queue_depth t w =
        Some (- 1, w\<lparr>cerr := cerr w @ [''No device loaded for get_queue_depth\<newline>'']\<rparr>) \<and>
      get_single_submit t w =
        Some (False, w\<lparr>cerr := cerr w @ [''No device loaded for get_single_submit\<newline>'']\<rparr>) \<and>
      get_overlap_events t w =
        Some (False, w\<lparr>cerr := cerr w @ [''No device loaded for get_overlap_events\<newline>'']\<rparr>) \<and>
      get_thread_count t w =
        Some (- 1, w\<lparr>cerr := cerr w @ [''No device loaded for get_thread_count\<newline>'']\<rparr>) \<and>
      read t buffer filename validate w =
        Some ((), w\<lparr>cerr := cerr w @ [''No device loaded for read\<newline>'']\<rparr>) \<and>
      write_op t buffer filename validate w =
        Some ((), w\<lparr>cerr := cerr w @ [''No device loaded for write\<newline>'']\<rparr>) \<and>
      pread t buffer filename validate async w =
        Some ((), w\<lparr>cerr := cerr w @ [''No device loaded for pread\<newline>'']\<rparr>) \<and>
      pwrite t buffer filename validate async w =
        Some ((), w\<lparr>cerr := cerr w @ [''No device loaded for pwrite\<newline>'']\<rparr>) \<and>
      sync_pread t buffer filename w =
        Some ((), w\<lparr>cerr := cerr w @ [''No device loaded for sync_pread\<newline>'']\<rparr>) \<and>
      sync_pwrite t buffer filename w =
        Some ((), w\<lparr>cerr := cerr w @ [''No device loaded for sync_pwrite\<newline>'']\<rparr>) \<and>
      async_pread t buffer filename w =
        Some ((), w\<lparr>cerr := cerr w @ [''No device loaded for async_pread\<newline>'']\<rparr>) \<and>
      async_pwrite t buffer filename w =
        Some ((), w\<lparr>cerr := cerr w @ [''No device loaded for async_pwrite\<newline>'']\<rparr>) \<and>
      new_cpu_locked_tensor t num_elem example_tensor w =
        Some ((), w\<lparr>cerr := cerr w @ [''No device loaded for new_cpu_locked_tensor\<newline>'']\<rparr>) \<and>
      free_cpu_locked_tensor t tensor w =
        Some ((), w\<lparr>cerr := cerr w @ [''No device loaded for free_cpu_locked_tensor\<newline>'']\<rparr>) \<and>
      wait t w =
        Some ((), w\<lparr>cerr := cerr w @ [''No device loaded for wait\<newline>'']\<rparr>))"
proof -
  have "\<exists>c t' w'. load_device s t w = Some (c, t', w') \<and>
       (case cwd w of
          None \<Rightarrow> c = Filesystem_error \<and> cerr w' = cerr w
        | Some p \<Rightarrow>
            c = Returned \<and>
            cerr w' = cerr w @
              (case libs w (c_str (lib_path p s)) of
                 None \<Rightarrow> [''Cannot open library: '' @
                           open_error w (c_str (lib_path p s)) @ ''\<newline>'']
               | Some l \<Rightarrow>
                   if ''create_device'' \<in> set (symbols l) then []
                   else [''Cannot load symbol create_device: '' @
                         symbol_error w (c_str (lib_path p s)) ''create_device'' @
                         ''\<newline>'']))"
  proof (cases "cwd w")
    case None
    from load_device_throws [OF assms(1) None] None show ?thesis
      by simp
  next
    case cwd: (Some p)
    show ?thesis
    proof (cases "libs w (c_str (lib_path p s))")
      case None
      from load_device_open_fails [OF assms(1) cwd None] cwd None show ?thesis
        by simp
    next
      case (Some l)
      show ?thesis
      proof (cases "''create_device'' \<in> set (symbols l)")
        case True
        from load_device_succeeds [OF assms(1) cwd Some True] cwd Some True show ?thesis
          by simp
      next
        case False
        from load_device_symbol_missing [OF assms cwd Some False] cwd Some False show ?thesis
          by simp
      qed
    qed
  qed
  moreover have "device t = None \<longrightarrow>
      aio_read t buffer filename validate w =
        Some ((), w\<lparr>cerr := cerr w @ [''No device loaded for aio_read\<newline>'']\<rparr>) \<and>
      aio_write t buffer filename validate w =
        Some ((), w\<lparr>cerr := cerr w @ [''No device loaded for aio_write\<newline>'']\<rparr>) \<and>
      deepspeed_memcpy t dest src w =
        Some ((), w\<lparr>cerr := cerr w @ [''No device loaded for deepspeed_memcpy\<newline>'']\<rparr>) \<and>
      get_block_size t w =
        Some (- 1, w\<lparr>cerr := cerr w @ [''No device loaded for get_block_size\<newline>'']\<rparr>) \<and>
      get_queue_depth t w =
        Some (- 1, w\<lparr>cerr := cerr w @ [''No device loaded for get_queue_depth\<newline>'']\<rparr>) \<and>
      get_single_submit t w =
        Some (False, w\<lparr>cerr := cerr w @ [''No device loaded for get_single_submit\<newline>'']\<rparr>) \<and>
      get_overlap_events t w =
        Some (False, w\<lparr>cerr := cerr w @ [''No device loaded for get_overlap_events\<newline>'']\<rparr>) \<and>
      get_thread_count t w =
        Some (- 1, w\<lparr>cerr := cerr w @ [''No device loaded for get_thread_count\<newline>'']\<rparr>) \<and>
      read t buffer filename validate w =
        Some ((), w\<lparr>cerr := cerr w @ [''No device loaded for read\<newline>'']\<rparr>) \<and>
      write_op t buffer filename validate w =
        Some ((), w\<lparr>cerr := cerr w @ [''No device loaded for write\<newline>'']\<rparr>) \<and>
      pread t buffer filename validate async w =
        Some ((), w\<lparr>cerr := cerr w @ [''No device loaded for pread\<newline>'']\<rparr>) \<and>
      pwrite t buffer filename validate async w =
        Some ((), w\<lparr>cerr := cerr w @ [''No device loaded for pwrite\<newline>'']\<rparr>) \<and>
      sync_pread t buffer filename w =
        Some ((), w\<lparr>cerr := cerr w @ [''No device loaded for sync_pread\<newline>'']\<rparr>) \<and>
      sync_pwrite t buffer filename w =
        Some ((), w\<lparr>cerr := cerr w @ [''No device loaded for sync_pwrite\<newline>'']\<rparr>) \<and>
      async_pread t buffer filename w =
        Some ((), w\<lparr>cerr := cerr w @ [''No device loaded for async_pread\<newline>'']\<rparr>) \<and>
      async_pwrite t buffer filename w =
        Some ((), w\<lparr>cerr := cerr w @ [''No device loaded for async_pwrite\<newline>'']\<rparr>) \<and>
      new_cpu_locked_tensor t num_elem example_tensor w =
        Some ((), w\<lparr>cerr := cerr w @ [''No device loaded for new_cpu_locked_tensor\<newline>'']\<rparr>) \<and>
      free_cpu_locked_tensor t tensor w =
        Some ((), w\<lparr>cerr := cerr w @ [''No device loaded for free_cpu_locked_tensor\<newline>'']\<rparr>) \<and>
      wait t w =
        Some ((), w\<lparr>cerr := cerr w @ [''No device loaded for wait\<newline>'']\<rparr>)"
    by (simp add: no_device cerr_print_def)
  ultimately show ?thesis
    by (rule conjI)
qed

text \<open>
  The theorem on a trampoline that holds nothing, for a module that is absent, one
  without the factory symbol and one that loads, and in a world whose current directory
  is gone; and on the trampoline that holds the \<^verbatim>\<open>nvme\<close> backend, for an absent module.
\<close>

theorem failures_go_to_cerr_witness:
  "valid t_unloaded w0 \<and> fresh w0 \<and>
   (\<exists>c t' w'. load_device ''null'' t_unloaded w0 = Some (c, t', w') \<and> c = Returned \<and>
      cerr w' = [''Cannot open library: '' @ null_so @
                 '': cannot open shared object file: No such file or directory'' @
                 ''\<newline>'']) \<and>
   (\<exists>c t' w'. load_device ''bad'' t_unloaded w0 = Some (c, t', w') \<and> c = Returned \<and>
      cerr w' = [''Cannot load symbol create_device: '' @ bad_so @
                 '': undefined symbol: create_device'' @ ''\<newline>'']) \<and>
   (\<exists>c t' w'. load_device ''nvme'' t_unloaded w0 = Some (c, t', w') \<and> c = Returned \<and>
      cerr w' = []) \<and>
   valid t_unloaded w_nocwd \<and> fresh w_nocwd \<and>
   (\<exists>c t' w'. load_device ''nvme'' t_unloaded w_nocwd = Some (c, t', w') \<and>
      c = Filesystem_error \<and> cerr w' = []) \<and>
   valid t_nvme w_nvme \<and> fresh w_nvme \<and>
   (\<exists>c t' w'. load_device ''null'' t_nvme w_nvme = Some (c, t', w') \<and> c = Returned \<and>
      cerr w' = [''Cannot open library: '' @ null_so @
                 '': cannot open shared object file: No such file or directory'' @
                 ''\<newline>'']) \<and>
   device t_unloaded = None \<and>
   aio_read t_unloaded 7 ''f'' True w0 =
     Some ((), w0\<lparr>cerr := [''No device loaded for aio_read\<newline>'']\<rparr>)"
  using failures_go_to_cerr [OF valid_unloaded fresh_w0, of "''null''" 7 "''f''" True]
    failures_go_to_cerr [OF valid_unloaded fresh_w0, of "''bad''"]
    failures_go_to_cerr [OF valid_unloaded fresh_w0, of "''nvme''"]
    failures_go_to_cerr [OF valid_unloaded fresh_nocwd, of "''nvme''"]
    failures_go_to_cerr [OF valid_nvme fresh_nvme, of "''null''"]
    valid_unloaded [of w0] fresh_w0 valid_unloaded [of w_nocwd] fresh_nocwd valid_nvme fresh_nvme
  by (simp add: lib_path_w plugins_at)

text \<open>
  C3 as stated fails: what the caller gets back from a failed call is what it gets back
  from a successful one. \<^verbatim>\<open>aio_read\<close> returns nothing both with no device and with the
  \<^verbatim>\<open>nvme\<close> backend loaded; \<^verbatim>\<open>get_block_size\<close> returns \<open>-1\<close> both with no device and
  with the \<^verbatim>\<open>gds\<close> backend loaded, which answers \<open>-1\<close> itself. And a failed load is
  not always one the caller can recover from: after \<^verbatim>\<open>load_device("null")\<close> on the
  \<^verbatim>\<open>nvme\<close> trampoline, a further \<^verbatim>\<open>load_device\<close> has no defined outcome.
\<close>

theorem failure_returns_like_success:
  "Trampoline_ctor ''null'' w0 = Some (Returned, t_unloaded, w_null) \<and>
   Trampoline_ctor ''nvme'' w0 = Some (Returned, t_nvme, w_nvme) \<and>
   load_device ''gds'' t_nvme w_nvme = Some (Returned, t_gds, w_gds) \<and>
   load_device ''null'' t_nvme w_nvme = Some (Returned, t_stale, w_stale) \<and>
   load_device ''nvme'' t_stale w_stale = None \<and>
   map_option fst (aio_read t_unloaded 7 ''f'' True w_null) = Some () \<and>
   map_option fst (aio_read t_nvme 7 ''f'' True w_nvme) = Some () \<and>
   map_option fst (get_block_size t_unloaded w_null) = Some (- 1) \<and>
   map_option fst (get_block_size t_gds w_gds) = Some (- 1)"
  by (simp add: ctor_null ctor_nvme nvme_then_gds nvme_then_null no_device
      stale_load_undefined [of t_stale 1 w_stale]
      query_live [of t_gds 3 w_gds gds_dev] aio_read_def member_call_def)

subsection \<open>C6: wait\<close>

text \<open>
  C6, as amended. \<^verbatim>\<open>wait()\<close> called while the device pointer refers to a live device
  forwards the call to that device, which receives it after everything issued to it
  before, and by the contract of the backend none of the asynchronous operations issued
  to it is still in flight when the call comes back; \<^verbatim>\<open>wait()\<close> then returns to the
  caller, and returns nothing: its return type is \<^verbatim>\<open>void\<close>, no count reaches the
  caller. Called while the device pointer is null it writes
  \<^verbatim>\<open>No device loaded for wait\<close> to the error stream, forwards nothing and returns
  nothing. The statement is about these two states of the pointer only; it says nothing
  of a call made while the pointer refers to a deleted device.
\<close>

theorem wait_forwards_and_returns_nothing:
  "(device t = Some d \<and> heap w d = Some obj \<longrightarrow>
      wait t w = Some ((), w\<lparr>heap := (heap w)(d \<mapsto> obj\<lparr>calls := calls obj @ [Wait]\<rparr>)\<rparr>) \<and>
      outstanding (calls obj @ [Wait]) = 0) \<and>
   (device t = None \<longrightarrow>
      wait t w = Some ((), w\<lparr>cerr := cerr w @ [''No device loaded for wait\<newline>'']\<rparr>))"
  by (simp add: wait_def member_call_def outstanding_Wait cerr_print_def)

text \<open>
  The theorem on the \<^verbatim>\<open>nvme\<close> trampoline with two asynchronous operations in flight,
  and on a trampoline that holds nothing.
\<close>

theorem wait_forwards_and_returns_nothing_witness:
  "device t_nvme = Some 1 \<and>
   heap w_busy 1 = Some (nvme_dev\<lparr>calls := [AsyncPwrite 7 ''f'', AsyncPread 8 ''g'']\<rparr>) \<and>
   wait t_nvme w_busy =
     Some ((), w_busy\<lparr>heap := [1 \<mapsto> nvme_dev\<lparr>calls := [AsyncPwrite 7 ''f'', AsyncPread 8 ''g'', Wait]\<rparr>]\<rparr>) \<and>
   outstanding [AsyncPwrite 7 ''f'', AsyncPread 8 ''g'', Wait] = 0 \<and>
   device t_unloaded = None \<and>
   wait t_unloaded w_null =
     Some ((), w_null\<lparr>cerr := cerr w_null @ [''No device loaded for wait\<newline>'']\<rparr>)"
  using wait_forwards_and_returns_nothing [of t_nvme 1 w_busy
      "nvme_dev\<lparr>calls := [AsyncPwrite 7 ''f'', AsyncPread 8 ''g'']\<rparr>"]
    wait_forwards_and_returns_nothing [of t_unloaded 0 w_null nvme_dev]
  by simp

text \<open>
  C6 as stated fails in what \<^verbatim>\<open>wait()\<close> returns: called with no operation in flight
  and called with two, it hands the caller the same empty value. It also fails on the
  \<^verbatim>\<open>nvme\<close> trampoline after \<^verbatim>\<open>load_device("null")\<close>: no device is left, yet
  \<^verbatim>\<open>wait()\<close> does not report that no device is loaded, and has no defined outcome.
\<close>

theorem wait_returns_no_count:
  "Trampoline_ctor ''nvme'' w0 = Some (Returned, t_nvme, w_nvme) \<and>
   async_pwrite t_nvme 7 ''f'' w_nvme = Some ((), w_busy1) \<and>
   async_pread t_nvme 8 ''g'' w_busy1 = Some ((), w_busy) \<and>
   map_option (outstanding \<circ> calls) (heap w_nvme 1) = Some 0 \<and>
   map_option (outstanding \<circ> calls) (heap w_busy 1) = Some 2 \<and>
   map_option fst (wait t_nvme w_nvme) = Some () \<and>
   map_option fst (wait t_nvme w_busy) = Some () \<and>
   load_device ''null'' t_nvme w_nvme = Some (Returned, t_stale, w_stale) \<and>
   heap w_stale = Map.empty \<and> wait t_stale w_stale = None"
  by (simp add: ctor_nvme busy_steps outstanding_busy nvme_then_null wait_def member_call_def)

subsection \<open>C7: new_cpu_locked_tensor\<close>

text \<open>
  C7, as amended. \<^verbatim>\<open>new_cpu_locked_tensor(num_elem, example_tensor)\<close>, called with an
  active device, forwards the call with the same two arguments to that device, and to
  nothing else, and returns nothing to the caller: in both classes its return type is
  \<^verbatim>\<open>void\<close>, so whatever the device allocates does not reach the caller through this
  call.
\<close>

theorem new_cpu_locked_tensor_forwards_and_returns_nothing:
  assumes "heap w d = Some obj"
  shows "(device t = Some d \<longrightarrow>
      new_cpu_locked_tensor t num_elem example_tensor w =
        Some ((), w\<lparr>heap := (heap w)(d \<mapsto>
                obj\<lparr>calls := calls obj @ [NewCpuLockedTensor num_elem example_tensor]\<rparr>)\<rparr>)) \<and>
     (py_device a = Some d \<longrightarrow>
      py_new_cpu_locked_tensor a num_elem example_tensor w =
        Some ((), w\<lparr>heap := (heap w)(d \<mapsto>
                obj\<lparr>calls := calls obj @ [NewCpuLockedTensor num_elem example_tensor]\<rparr>)\<rparr>))"
  using assms
  by (simp add: new_cpu_locked_tensor_def py_new_cpu_locked_tensor_def member_call_def)

text \<open>The theorem on a loaded object of each class.\<close>

theorem new_cpu_locked_tensor_forwards_and_returns_nothing_witness:
  "heap w_nvme 1 = Some nvme_dev \<and> device t_nvme = Some 1 \<and>
   new_cpu_locked_tensor t_nvme 1024 9 w_nvme =
     Some ((), w_nvme\<lparr>heap := [1 \<mapsto> nvme_dev\<lparr>calls := [NewCpuLockedTensor 1024 9]\<rparr>]\<rparr>) \<and>
   heap w_py 0 = Some nvme_dev \<and> py_device a_nvme = Some 0 \<and>
   py_new_cpu_locked_tensor a_nvme 1024 9 w_py =
     Some ((), w_py\<lparr>heap := [0 \<mapsto> nvme_dev\<lparr>calls := [NewCpuLockedTensor 1024 9]\<rparr>]\<rparr>)"
  using new_cpu_locked_tensor_forwards_and_returns_nothing [of w_nvme 1 nvme_dev t_nvme 1024 9 a_unloaded]
    new_cpu_locked_tensor_forwards_and_returns_nothing [of w_py 0 nvme_dev t_unloaded 1024 9 a_nvme]
  by simp

text \<open>
  C7 as stated fails in what is returned: two requests for buffers of different sizes
  and shapes hand the caller the same empty value, in both classes.
\<close>

theorem new_cpu_locked_tensor_returns_no_buffer:
  "Trampoline_ctor ''nvme'' w0 = Some (Returned, t_nvme, w_nvme) \<and>
   map_option fst (new_cpu_locked_tensor t_nvme 4 7 w_nvme) = Some () \<and>
   map_option fst (new_cpu_locked_tensor t_nvme 1024 9 w_nvme) = Some () \<and>
   py_ctor w0 = Some (a_nvme, w_py) \<and>
   map_option fst (py_new_cpu_locked_tensor a_nvme 4 7 w_py) = Some () \<and>
   map_option fst (py_new_cpu_locked_tensor a_nvme 1024 9 w_py) = Some ()"
  by (simp add: ctor_nvme py_ctor_w0 new_cpu_locked_tensor_def py_new_cpu_locked_tensor_def
      member_call_def)

subsection \<open>C10: the functions bound on the module\<close>

text \<open>
  C10 does not hold of the code for \<^verbatim>\<open>load_device("nvme")\<close>. The function builds a
  \<^verbatim>\<open>DeepSpeedAIOTrampoline\<close>, whose constructor puts an \<^verbatim>\<open>NVMEDevice\<close> on the free
  store (object 0); \<^verbatim>\<open>load_device("nvme")\<close> then stores a second one (object 1) in the
  device pointer without deleting the first; the destructor deletes object 1 only.
  Object 0 stays on the free store after the function has returned, and is still there
  after a later call. The other three functions, and \<^verbatim>\<open>load_device\<close> with any other
  device type, delete the one device they created and leave the free store as it was.
\<close>

theorem standalone_load_device_nvme_leaks:
  "m_load_device ''nvme'' w0 = Some ((), w_leak) \<and>
   heap w0 = Map.empty \<and> heap w_leak = [0 \<mapsto> nvme_dev] \<and>
   trace w_leak = [New 0, New 1, Delete 1] \<and>
   m_load_device ''null'' w0 =
     Some ((), w0\<lparr>next_id := 1, cerr := [''Unknown device type: null\<newline>''],
                   trace := [New 0, Delete 0]\<rparr>) \<and>
   m_aio_read 7 ''f'' True w0 = Some ((), w0\<lparr>next_id := 1, trace := [New 0, Delete 0]\<rparr>) \<and>
   m_aio_write 7 ''f'' True w0 = Some ((), w0\<lparr>next_id := 1, trace := [New 0, Delete 0]\<rparr>) \<and>
   m_deepspeed_memcpy 7 8 w0 = Some ((), w0\<lparr>next_id := 1, trace := [New 0, Delete 0]\<rparr>) \<and>
   m_aio_read 7 ''f'' True w_leak =
     Some ((), w_leak\<lparr>next_id := 3, trace := [New 0, New 1, Delete 1, New 2, Delete 2]\<rparr>)"
  by (simp add: m_load_device_def m_aio_read_def m_aio_write_def m_deepspeed_memcpy_def
      py_ctor_def py_load_device_def py_dtor_def py_aio_read_def py_aio_write_def
      py_deepspeed_memcpy_def member_call_def new_obj_def delete_obj_def cerr_print_def
      w_leak_def w0_def)

end
